theory Spec2Isabelle
  imports Complex_Main
begin

section \<open>JavaScript values as the server sees them\<close>

text \<open>
  The server (\<^verbatim>\<open>src/server.js\<close>) handles values that come out of \<^verbatim>\<open>JSON.parse\<close>,
  \<^verbatim>\<open>res.json()\<close> and \<^verbatim>\<open>express.json()\<close>: null, booleans, numbers, strings, arrays and
  plain objects. A number is an IEEE double; the code never computes with one, it only
  tests, copies and converts it, so a finite number is carried as the rational it denotes,
  next to the three special values and the negative zero. A string is a list of code
  units (here: the units below 256). An object is the list of its own enumerable
  properties in the order \<^verbatim>\<open>Object.keys\<close> enumerates them. \<^verbatim>\<open>undefined\<close> is \<open>None\<close> of
  \<open>json option\<close>.
\<close>

datatype jsnum = NaN | NegZero | PosInf | NegInf | Fin rat

datatype json =
    JNull
  | JBool bool
  | JNum jsnum
  | JStr string
  | JArr "json list"
  | JObj "(string \<times> json) list"

datatype js_error =
    TypeError
  | SyntaxError
  | AbortError
  | NetworkError
  | HttpError nat
  | NoKeyError

text \<open>
  The conversions between numbers and strings and the JSON parser belong to the engine,
  not to the repository: they are parameters of the model.
\<close>

record builtins =
  Number_toString :: "jsnum \<Rightarrow> string"
  StringToNumber :: "string \<Rightarrow> jsnum"
  JSON_parse :: "string \<Rightarrow> json option"

subsection \<open>Truthiness, typeof, own properties\<close>

fun num_truthy :: "jsnum \<Rightarrow> bool" where
  "num_truthy NaN = False"
| "num_truthy NegZero = False"
| "num_truthy (Fin q) = (q \<noteq> 0)"
| "num_truthy PosInf = True"
| "num_truthy NegInf = True"

fun truthy :: "json \<Rightarrow> bool" where
  "truthy JNull = False"
| "truthy (JBool b) = b"
| "truthy (JNum n) = num_truthy n"
| "truthy (JStr s) = (s \<noteq> [])"
| "truthy (JArr xs) = True"
| "truthy (JObj kvs) = True"

fun truthy_opt :: "json option \<Rightarrow> bool" where
  "truthy_opt None = False"
| "truthy_opt (Some v) = truthy v"

fun typeof :: "json option \<Rightarrow> string" where
  "typeof None = ''undefined''"
| "typeof (Some JNull) = ''object''"
| "typeof (Some (JBool b)) = ''boolean''"
| "typeof (Some (JNum n)) = ''number''"
| "typeof (Some (JStr s)) = ''string''"
| "typeof (Some (JArr xs)) = ''object''"
| "typeof (Some (JObj kvs)) = ''object''"

fun Array_isArray :: "json option \<Rightarrow> bool" where
  "Array_isArray (Some (JArr xs)) = True"
| "Array_isArray v = False"

definition digit_char :: "nat \<Rightarrow> char" where
  "digit_char d = ''0123456789'' ! (d mod 10)"

fun dec_str :: "nat \<Rightarrow> string" where
  "dec_str n = (if n < 10 then [digit_char n] else dec_str (n div 10) @ [digit_char (n mod 10)])"

declare dec_str.simps [simp del]

text \<open>
  The own enumerable string-keyed properties, in \<^verbatim>\<open>Object.keys\<close> order: the fields of an
  object, the indices of an array, the indices of a string; a primitive has none.
\<close>

fun own_props :: "json \<Rightarrow> (string \<times> json) list" where
  "own_props (JObj kvs) = kvs"
| "own_props (JArr xs) = zip (map dec_str [0..<length xs]) xs"
| "own_props (JStr s) = zip (map dec_str [0..<length s]) (map (\<lambda>c. JStr [c]) s)"
| "own_props v = []"

definition Object_keys :: "json \<Rightarrow> string list" where
  "Object_keys v = map fst (own_props v)"

text \<open>\<^verbatim>\<open>length\<close> is an own property of arrays and strings that is not enumerable.\<close>

fun own_length :: "json \<Rightarrow> json option" where
  "own_length (JArr xs) = Some (JNum (Fin (of_nat (length xs))))"
| "own_length (JStr s) = Some (JNum (Fin (of_nat (length s))))"
| "own_length v = None"

definition hasOwnProperty :: "json \<Rightarrow> string \<Rightarrow> bool" where
  "hasOwnProperty v f =
     (f \<in> set (Object_keys v) \<or> (f = ''length'' \<and> own_length v \<noteq> None))"

text \<open>
  \<^verbatim>\<open>v[f]\<close> for a property name that no prototype defines (every name the server reads:
  the candidate key fields, the keys \<^verbatim>\<open>Object.keys\<close> returned, \<^verbatim>\<open>text\<close>, \<^verbatim>\<open>commands\<close>,
  \<^verbatim>\<open>command\<close>, \<^verbatim>\<open>confidence\<close>): the own property, or \<^verbatim>\<open>undefined\<close>.
\<close>

definition get_prop :: "json \<Rightarrow> string \<Rightarrow> json option" where
  "get_prop v f =
     (case map_of (own_props v) f of
        Some x \<Rightarrow> Some x
      | None \<Rightarrow> if f = ''length'' then own_length v else None)"

subsection \<open>String coercion and trimming\<close>

text \<open>
  \<^verbatim>\<open>String(v)\<close>. A plain object prints as \<^verbatim>\<open>[object Object]\<close> through the inherited
  \<^verbatim>\<open>toString\<close>; when the object has an own property \<^verbatim>\<open>toString\<close> (never callable in
  parsed JSON) the conversion finds no usable method and throws a TypeError. An array
  prints its elements joined by commas, null printing as the empty string.
\<close>

fun ToString :: "builtins \<Rightarrow> json \<Rightarrow> js_error + string"
and Array_join :: "builtins \<Rightarrow> string \<Rightarrow> json list \<Rightarrow> js_error + string" where
  "ToString B JNull = Inr ''null''"
| "ToString B (JBool b) = Inr (if b then ''true'' else ''false'')"
| "ToString B (JNum n) = Inr (Number_toString B n)"
| "ToString B (JStr s) = Inr s"
| "ToString B (JObj kvs) =
     (if ''toString'' \<in> set (map fst kvs) then Inl TypeError else Inr ''[object Object]'')"
| "ToString B (JArr xs) = Array_join B '','' xs"
| "Array_join B sep [] = Inr []"
| "Array_join B sep (x # xs) =
     (case (if x = JNull then Inr [] else ToString B x) of
        Inl e \<Rightarrow> Inl e
      | Inr s \<Rightarrow>
          (if xs = [] then Inr s
           else (case Array_join B sep xs of
                   Inl e \<Rightarrow> Inl e
                 | Inr r \<Rightarrow> Inr (s @ sep @ r))))"

text \<open>The white space and line terminators of \<^verbatim>\<open>String.prototype.trim\<close> below 256.\<close>

definition js_ws :: "char \<Rightarrow> bool" where
  "js_ws c = (c \<in> set [CHR 0x09, CHR 0x0A, CHR 0x0B, CHR 0x0C, CHR 0x0D, CHR 0x20, CHR 0xA0])"

definition trim :: "string \<Rightarrow> string" where
  "trim s = rev (dropWhile js_ws (rev (dropWhile js_ws s)))"

section \<open>Secret Resolver: \<^verbatim>\<open>extractKeyFromBody\<close>\<close>

definition possibleFields :: "string list" where
  "possibleFields =
     [''api_key'', ''apikey'', ''key'', ''token'', ''value'', ''secret'', ''apiKey'']"

text \<open>
  The test of one candidate field in the first loop:
  \<^verbatim>\<open>candidate && hasOwnProperty.call(candidate, f) && candidate[f]\<close>, giving the field's
  value when the test passes.
\<close>

definition field_hit :: "json \<Rightarrow> string \<Rightarrow> json option" where
  "field_hit candidate f =
     (if truthy candidate \<and> hasOwnProperty candidate f then
        (case get_prop candidate f of
           Some v \<Rightarrow> if truthy v then Some v else None
         | None \<Rightarrow> None)
      else None)"

text \<open>
  The first loop, \<^verbatim>\<open>for (const f of possibleFields)\<close>: \<open>None\<close> when the loop ends without
  a return, otherwise what \<^verbatim>\<open>String(candidate[f]).trim()\<close> returns or throws.
\<close>

fun scan_fields :: "builtins \<Rightarrow> json \<Rightarrow> string list \<Rightarrow> (js_error + string) option" where
  "scan_fields B candidate [] = None"
| "scan_fields B candidate (f # fs) =
     (case field_hit candidate f of
        Some v \<Rightarrow> Some (map_sum id trim (ToString B v))
      | None \<Rightarrow> scan_fields B candidate fs)"

text \<open>The second loop, \<^verbatim>\<open>for (const k of Object.keys(candidate))\<close>.\<close>

fun scan_keys :: "json \<Rightarrow> string list \<Rightarrow> string option" where
  "scan_keys candidate [] = None"
| "scan_keys candidate (k # ks) =
     (let v = get_prop candidate k in
      if typeof v = ''string'' then
        (case v of
           Some (JStr s) \<Rightarrow> if length s > 20 then Some (trim s) else scan_keys candidate ks
         | _ \<Rightarrow> scan_keys candidate ks)
      else scan_keys candidate ks)"

text \<open>\<^verbatim>\<open>Array.isArray(body) && body.length ? body[0] : body\<close>\<close>

fun candidate_of :: "json \<Rightarrow> json" where
  "candidate_of (JArr (x # xs)) = x"
| "candidate_of body = body"

text \<open>\<open>Inr None\<close> is the return of \<^verbatim>\<open>null\<close>, \<open>Inl e\<close> an exception leaving the function.\<close>

definition extractKeyFromBody :: "builtins \<Rightarrow> json \<Rightarrow> js_error + string option" where
  "extractKeyFromBody B body =
     (if \<not> truthy body then Inr None
      else
        let candidate = candidate_of body in
        (case scan_fields B candidate possibleFields of
           Some (Inl e) \<Rightarrow> Inl e
         | Some (Inr s) \<Rightarrow> Inr (Some s)
         | None \<Rightarrow>
             if truthy candidate \<and> typeof (Some candidate) = ''object'' then
               (case scan_keys candidate (Object_keys candidate) of
                  Some s \<Rightarrow> Inr (Some s)
                | None \<Rightarrow> Inr None)
             else Inr None))"

section \<open>Secret Resolver: \<^verbatim>\<open>loadKeyFromMockAPI\<close>\<close>

text \<open>
  What the remote endpoint does with one request: the \<^verbatim>\<open>fetch\<close> promise rejects (network
  failure, or the abort fired by the 8 s timer), or a response arrives with its status and
  with what \<^verbatim>\<open>res.json()\<close> makes of the body (\<open>None\<close>: the body is not JSON).
\<close>

datatype fetch_reply = Rejects js_error | Responds nat "json option"

definition fetchWithTimeout :: "fetch_reply \<Rightarrow> js_error + (nat \<times> json option)" where
  "fetchWithTimeout r = (case r of Rejects err \<Rightarrow> Inl err | Responds status b \<Rightarrow> Inr (status, b))"

definition res_ok :: "nat \<Rightarrow> bool" where
  "res_ok status = (200 \<le> status \<and> status \<le> 299)"

text \<open>The body of the \<^verbatim>\<open>try\<close> block of one attempt: the key returned, or the error caught.\<close>

definition try_attempt :: "builtins \<Rightarrow> fetch_reply \<Rightarrow> js_error + string" where
  "try_attempt B r =
     (case fetchWithTimeout r of
        Inl err \<Rightarrow> Inl err
      | Inr (status, b) \<Rightarrow>
          if \<not> res_ok status then Inl (HttpError status)
          else (case b of
                  None \<Rightarrow> Inl SyntaxError
                | Some body \<Rightarrow>
                    (case extractKeyFromBody B body of
                       Inl err \<Rightarrow> Inl err
                     | Inr None \<Rightarrow> Inl NoKeyError
                     | Inr (Some key) \<Rightarrow> if key \<noteq> [] then Inr key else Inl NoKeyError)))"

text \<open>
  What the resolver does to the outside world, in order: a GET request, a warning on the
  console, a wait of so many milliseconds.
\<close>

datatype event = Request | Warn int js_error | Wait int

text \<open>
  The \<^verbatim>\<open>for\<close> loop, from the attempt number \<open>attempt\<close> on; \<open>net i\<close> is the endpoint's reply
  to the request of attempt \<open>i\<close>, \<open>trace\<close> the events so far.
\<close>

function loadKey_loop ::
  "builtins \<Rightarrow> (int \<Rightarrow> fetch_reply) \<Rightarrow> int \<Rightarrow> int \<Rightarrow> int \<Rightarrow> event list \<Rightarrow> string option \<times> event list"
where
  "loadKey_loop B net maxAttempts delayMs attempt trace =
     (if attempt \<le> maxAttempts then
        (case try_attempt B (net attempt) of
           Inr key \<Rightarrow> (Some key, trace @ [Request])
         | Inl err \<Rightarrow>
             loadKey_loop B net maxAttempts delayMs (attempt + 1)
               (trace @ [Request, Warn attempt err]
                    @ (if attempt < maxAttempts then [Wait delayMs] else [])))
      else (None, trace))"
  by pat_completeness auto
termination
  by (relation "measure (\<lambda>(B, net, maxAttempts, delayMs, attempt, trace). nat (maxAttempts + 1 - attempt))")
     auto

declare loadKey_loop.simps [simp del]

definition loadKeyFromMockAPI ::
  "builtins \<Rightarrow> (int \<Rightarrow> fetch_reply) \<Rightarrow> int \<Rightarrow> int \<Rightarrow> string option \<times> event list"
where
  "loadKeyFromMockAPI B net maxAttempts delayMs = loadKey_loop B net maxAttempts delayMs 1 []"

section \<open>Credential Bootstrap: \<^verbatim>\<open>initKey\<close>\<close>

record key_state =
  OPENAI_API_KEY :: "string option"
  KEY_SOURCE :: "string option"

definition initial_state :: key_state where
  "initial_state = \<lparr>OPENAI_API_KEY = None, KEY_SOURCE = None\<rparr>"

text \<open>\<open>Exit c\<close>: \<^verbatim>\<open>process.exit(c)\<close> ended the process; \<open>Running x\<close>: the function returned.\<close>

datatype 'a proc = Exit int | Running 'a

text \<open>Truthiness of a value that is a string, \<^verbatim>\<open>null\<close> or \<^verbatim>\<open>undefined\<close>.\<close>

fun str_truthy :: "string option \<Rightarrow> bool" where
  "str_truthy None = False"
| "str_truthy (Some s) = (s \<noteq> [])"

text \<open>
  \<open>env_key\<close> is \<^verbatim>\<open>process.env.OPENAI_API_KEY\<close>. The resolver of the model returns its
  failure as a value, so the \<^verbatim>\<open>catch\<close> around its call has no branch here: like the
  \<^verbatim>\<open>else\<close> branch it falls through to the environment.
\<close>

definition initKey ::
  "builtins \<Rightarrow> (int \<Rightarrow> fetch_reply) \<Rightarrow> string option \<Rightarrow> key_state \<Rightarrow> key_state proc \<times> event list"
where
  "initKey B net env_key st =
     (let (key, trace) = loadKeyFromMockAPI B net 3 1500 in
      if str_truthy key then
        (Running (st\<lparr>OPENAI_API_KEY := key, KEY_SOURCE := Some ''mockapi''\<rparr>), trace)
      else if str_truthy env_key then
        (Running (st\<lparr>OPENAI_API_KEY := env_key, KEY_SOURCE := Some ''env''\<rparr>), trace)
      else (Exit 1, trace))"

text \<open>
  \<^verbatim>\<open>main\<close> of the second version of the file, up to the point where the routes are
  registered: the state the handlers run with, unless the process has exited.
\<close>

definition main_v2 :: "builtins \<Rightarrow> (int \<Rightarrow> fetch_reply) \<Rightarrow> string option \<Rightarrow> key_state proc" where
  "main_v2 B net env_key = fst (initKey B net env_key initial_state)"

text \<open>The first version of the file only has the early check of the environment.\<close>

definition main_v1 :: "string option \<Rightarrow> string option proc" where
  "main_v1 env_key = (if \<not> str_truthy env_key then Exit 1 else Running env_key)"

text \<open>\<^verbatim>\<open>process.env.PORT || 5500\<close>\<close>

definition PORT :: "string option \<Rightarrow> json" where
  "PORT env_port =
     (case env_port of
        Some s \<Rightarrow> if s \<noteq> [] then JStr s else JNum (Fin 5500)
      | None \<Rightarrow> JNum (Fin 5500))"

section \<open>Request handlers\<close>

text \<open>
  A response is the status set (200 when the handler sets none) and the value handed to
  \<^verbatim>\<open>res.json\<close>.
\<close>

datatype response = Response nat json

definition error_body :: "string \<Rightarrow> json" where
  "error_body code = JObj [(''error'', JStr code)]"

subsection \<open>\<^verbatim>\<open>GET /api/health\<close>\<close>

definition health_v1 :: "string option \<Rightarrow> string option \<Rightarrow> response" where
  "health_v1 env_key env_port =
     Response 200
       (JObj [(''ok'', JBool True), (''port'', PORT env_port), (''hasKey'', JBool (str_truthy env_key))])"

definition health_v2 :: "key_state \<Rightarrow> string option \<Rightarrow> response" where
  "health_v2 st env_port =
     Response 200
       (JObj [(''ok'', JBool True), (''port'', PORT env_port),
              (''keySource'',
                 (case KEY_SOURCE st of
                    Some s \<Rightarrow> if s \<noteq> [] then JStr s else JNull
                  | None \<Rightarrow> JNull))])"

subsection \<open>\<^verbatim>\<open>POST /api/transcribe\<close>\<close>










subsection \<open>\<^verbatim>\<open>POST /api/intent\<close>\<close>

text \<open>
  What the chat completion call does: it throws, or it returns a result without a first
  choice, message or content, or it returns the content (a string, or \<^verbatim>\<open>null\<close>).
\<close>

datatype chat_reply = ChatThrows js_error | ChatNoMessage | ChatContent "string option"

definition systemMsg :: string where
  "systemMsg = ''Eres un clasificador de intenciones que devuelve JSON estricto.''"

definition userMsg_v1 :: "string \<Rightarrow> string \<Rightarrow> string" where
  \<open>userMsg_v1 text joined =
     ''Texto del usuario: "'' @ text @ ''". '' @
     ''Elige el comando que mejor aplique de esta lista EXACTA: '' @ joined @ ''. '' @
     ''Devuelve solo un JSON: {"command":"<uno de la lista>","confidence":<0..1>}''\<close>

definition userMsg_v2 :: "string \<Rightarrow> string \<Rightarrow> string" where
  \<open>userMsg_v2 text joined =
     ''Texto del usuario: "'' @ text @ ''". '' @
     ''Elige el comando que mejor aplique de esta lista EXACTA: '' @ joined @ ''. '' @
     ''Devuelve s'' @ [CHR 0xF3] @ ''lo un JSON: {"command":"<uno de la lista>","confidence":<0..1>}''\<close>

text \<open>\<^verbatim>\<open>req.body || {}\<close>\<close>

definition body_or_empty :: "json option \<Rightarrow> json" where
  "body_or_empty req_body =
     (case req_body of Some b \<Rightarrow> if truthy b then b else JObj [] | None \<Rightarrow> JObj [])"

text \<open>
  The validation, the same text in both versions:
  \<^verbatim>\<open>typeof text !== "string" || !Array.isArray(commands) || !commands.length\<close>.
\<close>

definition invalid_intent :: "json option \<Rightarrow> json option \<Rightarrow> bool" where
  "invalid_intent text commands =
     (typeof text \<noteq> ''string'' \<or> \<not> Array_isArray commands \<or>
      \<not> truthy_opt (case commands of Some c \<Rightarrow> get_prop c ''length'' | None \<Rightarrow> None))"

text \<open>The string and the elements behind values that passed the validation.\<close>

fun str_of :: "json option \<Rightarrow> string" where
  "str_of (Some (JStr s)) = s"
| "str_of v = []"

fun elems_of :: "json option \<Rightarrow> json list" where
  "elems_of (Some (JArr xs)) = xs"
| "elems_of v = []"

definition intent_failed :: response where
  "intent_failed = Response 500 (error_body ''intent_failed'')"

text \<open>
  \<^verbatim>\<open>obj.f = v\<close> on a plain object: an existing property keeps its place, a new one
  comes last.
\<close>

fun set_prop :: "(string \<times> json) list \<Rightarrow> string \<Rightarrow> json \<Rightarrow> (string \<times> json) list" where
  "set_prop [] f v = [(f, v)]"
| "set_prop ((k, x) # kvs) f v = (if k = f then (k, v) # kvs else (k, x) # set_prop kvs f v)"

text \<open>
  The first version, after the parse: it sets \<^verbatim>\<open>source\<close>, replaces a confidence that is
  not a number and a command that is not a string, and sends the whole object. Setting a
  property on \<^verbatim>\<open>null\<close> or on a primitive throws (the file is a module, so strict); set on
  an array, the three properties are not among the elements \<^verbatim>\<open>res.json\<close> serialises.
\<close>

definition finish_v1 :: "json \<Rightarrow> response" where
  "finish_v1 json =
     (case json of
        JObj kvs \<Rightarrow>
          let j1 = set_prop kvs ''source'' (JStr ''openai'');
              j2 = (if typeof (map_of j1 ''confidence'') \<noteq> ''number''
                    then set_prop j1 ''confidence'' (JNum (Fin (1 / 2))) else j1);
              j3 = (if typeof (map_of j2 ''command'') \<noteq> ''string''
                    then set_prop j2 ''command'' JNull else j2)
          in Response 200 (JObj j3)
      | JArr xs \<Rightarrow> Response 200 (JArr xs)
      | _ \<Rightarrow> intent_failed)"

definition intent_v1 :: "builtins \<Rightarrow> (string \<Rightarrow> string \<Rightarrow> chat_reply) \<Rightarrow> json option \<Rightarrow> response" where
  "intent_v1 B chat req_body =
     (let b = body_or_empty req_body;
          text = get_prop b ''text'';
          commands = get_prop b ''commands''
      in
      if invalid_intent text commands then Response 400 (error_body ''bad_request'')
      else
        (case Array_join B '', '' (elems_of commands) of
           Inl err \<Rightarrow> intent_failed
         | Inr joined \<Rightarrow>
             (case chat systemMsg (userMsg_v1 (str_of text) joined) of
                ChatThrows err \<Rightarrow> intent_failed
              | ChatNoMessage \<Rightarrow> intent_failed
              | ChatContent content \<Rightarrow>
                  (case JSON_parse B (case content of Some s \<Rightarrow> s | None \<Rightarrow> ''null'') of
                     None \<Rightarrow> intent_failed
                   | Some json \<Rightarrow> finish_v1 json))))"

text \<open>\<^verbatim>\<open>Number(v)\<close>: an object or array goes through its string.\<close>

fun ToNumber :: "builtins \<Rightarrow> json \<Rightarrow> js_error + jsnum" where
  "ToNumber B JNull = Inr (Fin 0)"
| "ToNumber B (JBool b) = Inr (Fin (if b then 1 else 0))"
| "ToNumber B (JNum n) = Inr n"
| "ToNumber B (JStr s) = Inr (StringToNumber B s)"
| "ToNumber B v = map_sum id (StringToNumber B) (ToString B v)"

text \<open>\<^verbatim>\<open>commands.map(String)\<close>\<close>

fun map_String :: "builtins \<Rightarrow> json list \<Rightarrow> js_error + string list" where
  "map_String B [] = Inr []"
| "map_String B (x # xs) =
     (case ToString B x of
        Inl err \<Rightarrow> Inl err
      | Inr s \<Rightarrow> (case map_String B xs of Inl err \<Rightarrow> Inl err | Inr ss \<Rightarrow> Inr (s # ss)))"

text \<open>\<^verbatim>\<open>whitelist.has(command)\<close> on a set of strings.\<close>

fun Set_has :: "string list \<Rightarrow> json \<Rightarrow> bool" where
  "Set_has whitelist (JStr s) = (s \<in> set whitelist)"
| "Set_has whitelist v = False"

text \<open>
  The second version, from the reply of the chat call on. Destructuring \<^verbatim>\<open>null\<close> throws;
  any other value without the two properties takes the defaults.
\<close>

definition finish_v2 :: "builtins \<Rightarrow> json list \<Rightarrow> chat_reply \<Rightarrow> response" where
  "finish_v2 B commands reply =
     (let content = (case reply of ChatContent (Some s) \<Rightarrow> s | _ \<Rightarrow> ''{}'');
          out = (case JSON_parse B content of Some json \<Rightarrow> json | None \<Rightarrow> JObj [])
      in
      (case map_String B commands of
         Inl err \<Rightarrow> intent_failed
       | Inr whitelist \<Rightarrow>
           if out = JNull then intent_failed
           else
             let command = (case get_prop out ''command'' of Some v \<Rightarrow> v | None \<Rightarrow> JNull);
                 confidence = (case get_prop out ''confidence'' of Some v \<Rightarrow> v | None \<Rightarrow> JNum (Fin (1 / 2)));
                 command = (if \<not> Set_has whitelist command then JNull else command)
             in
             (case ToNumber B confidence of
                Inl err \<Rightarrow> intent_failed
              | Inr n \<Rightarrow>
                  Response 200
                    (JObj [(''command'', command),
                           (''confidence'', JNum (if num_truthy n then n else Fin (1 / 2))),
                           (''source'', JStr ''openai'')]))))"

definition intent_v2 :: "builtins \<Rightarrow> (string \<Rightarrow> string \<Rightarrow> chat_reply) \<Rightarrow> json option \<Rightarrow> response" where
  "intent_v2 B chat req_body =
     (let b = body_or_empty req_body;
          text = get_prop b ''text'';
          commands = get_prop b ''commands''
      in
      if invalid_intent text commands then Response 400 (error_body ''bad_request'')
      else
        (case Array_join B '', '' (elems_of commands) of
           Inl err \<Rightarrow> intent_failed
         | Inr joined \<Rightarrow>
             (case chat systemMsg (userMsg_v2 (str_of text) joined) of
                ChatThrows err \<Rightarrow> intent_failed
              | reply \<Rightarrow> finish_v2 B (elems_of commands) reply)))"

section \<open>The specification's reading of the extraction\<close>

text \<open>
  The extraction as the specification words it, over a given list of candidate field
  names: the first named field that the candidate object has with a truthy value,
  string-coerced and trimmed; otherwise the first field of the candidate (for an array,
  its elements) whose value is a string longer than 20, trimmed; otherwise null.
\<close>

fun first_some :: "('a \<Rightarrow> 'b option) \<Rightarrow> 'a list \<Rightarrow> 'b option" where
  "first_some f [] = None"
| "first_some f (x # xs) = (case f x of Some y \<Rightarrow> Some y | None \<Rightarrow> first_some f xs)"

definition named_field :: "json \<Rightarrow> string \<Rightarrow> json option" where
  "named_field candidate f =
     (case candidate of
        JObj kvs \<Rightarrow> (case map_of kvs f of Some v \<Rightarrow> if truthy v then Some v else None | None \<Rightarrow> None)
      | _ \<Rightarrow> None)"

definition secret_like :: "json \<Rightarrow> string \<Rightarrow> string option" where
  "secret_like candidate k =
     (case get_prop candidate k of
        Some (JStr s) \<Rightarrow> if length s > 20 then Some s else None
      | _ \<Rightarrow> None)"

definition field_names :: "json \<Rightarrow> string list" where
  "field_names candidate =
     (case candidate of
        JObj kvs \<Rightarrow> map fst kvs
      | JArr xs \<Rightarrow> map dec_str [0..<length xs]
      | _ \<Rightarrow> [])"

definition extract_spec :: "string list \<Rightarrow> builtins \<Rightarrow> json \<Rightarrow> js_error + string option" where
  "extract_spec names B body =
     (let candidate = (case body of JArr (x # xs) \<Rightarrow> x | _ \<Rightarrow> body) in
      case first_some (named_field candidate) names of
        Some v \<Rightarrow> map_sum id (\<lambda>s. Some (trim s)) (ToString B v)
      | None \<Rightarrow> Inr (map_option trim (first_some (secret_like candidate) (field_names candidate))))"

definition claimed_fields :: "string list" where
  "claimed_fields = [''api_key'', ''apikey'', ''key'', ''token'', ''value'', ''secret'']"

section \<open>Observations on traces, requests and responses\<close>

fun is_Request :: "event \<Rightarrow> bool" where
  "is_Request Request = True"
| "is_Request e = False"

fun is_Wait :: "event \<Rightarrow> bool" where
  "is_Wait (Wait ms) = True"
| "is_Wait e = False"

text \<open>The events of attempt \<open>i\<close> of a run with the given bound and delay.\<close>

definition attempt_events ::
  "builtins \<Rightarrow> (int \<Rightarrow> fetch_reply) \<Rightarrow> int \<Rightarrow> int \<Rightarrow> int \<Rightarrow> event list"
where
  "attempt_events B net maxAttempts delayMs i =
     (case try_attempt B (net i) of
        Inr key \<Rightarrow> [Request]
      | Inl err \<Rightarrow> [Request, Warn i err] @ (if i < maxAttempts then [Wait delayMs] else []))"

fun status_of :: "response \<Rightarrow> nat" where
  "status_of (Response status body) = status"

fun body_of :: "response \<Rightarrow> json" where
  "body_of (Response status body) = body"

definition request_text :: "json option \<Rightarrow> json option" where
  "request_text req_body = get_prop (body_or_empty req_body) ''text''"

definition request_commands :: "json option \<Rightarrow> json option" where
  "request_commands req_body = get_prop (body_or_empty req_body) ''commands''"

definition passes_validation :: "json option \<Rightarrow> bool" where
  "passes_validation req_body = (\<not> invalid_intent (request_text req_body) (request_commands req_body))"

text \<open>The validation as the specification words it.\<close>

fun is_string :: "json option \<Rightarrow> bool" where
  "is_string (Some (JStr s)) = True"
| "is_string v = False"

fun is_nonempty_array :: "json option \<Rightarrow> bool" where
  "is_nonempty_array (Some (JArr (x # xs))) = True"
| "is_nonempty_array v = False"

text \<open>
  The user message of each version for a request, when joining the commands does not
  throw.
\<close>

definition prompt_v1 :: "builtins \<Rightarrow> json option \<Rightarrow> js_error + string" where
  "prompt_v1 B req_body =
     map_sum id (userMsg_v1 (str_of (request_text req_body)))
       (Array_join B '', '' (elems_of (request_commands req_body)))"

definition prompt_v2 :: "builtins \<Rightarrow> json option \<Rightarrow> js_error + string" where
  "prompt_v2 B req_body =
     map_sum id (userMsg_v2 (str_of (request_text req_body)))
       (Array_join B '', '' (elems_of (request_commands req_body)))"

text \<open>
  The whitelisting as the specification words it: the upstream command when it is a
  string that is the string form of a member of the request's commands, null otherwise.
\<close>

definition whitelisted :: "builtins \<Rightarrow> json list \<Rightarrow> json option \<Rightarrow> json" where
  "whitelisted B commands command =
     (case command of
        Some (JStr s) \<Rightarrow> if (\<exists>m\<in>set commands. ToString B m = Inr s) then JStr s else JNull
      | _ \<Rightarrow> JNull)"

section \<open>An engine and a request for the examples\<close>

text \<open>
  The examples below need a concrete engine. Its parser knows the documents listed here
  and rejects everything else; its string-to-number conversion knows \<^verbatim>\<open>0.9\<close>; no example
  prints a number.
\<close>

definition example_documents :: "(string \<times> json) list" where
  \<open>example_documents =
     [(''{"command":"lights_dim"}'', JObj [(''command'', JStr ''lights_dim'')]),
      (''{"command":"lights_on"}'', JObj [(''command'', JStr ''lights_on'')]),
      (''{"command":"lights_on","confidence":0.9}'',
         JObj [(''command'', JStr ''lights_on''), (''confidence'', JNum (Fin (9 / 10)))]),
      (''{"command":"lights_on","confidence":"0.9"}'',
         JObj [(''command'', JStr ''lights_on''), (''confidence'', JStr ''0.9'')]),
      (''{"command":"lights_on","confidence":0}'',
         JObj [(''command'', JStr ''lights_on''), (''confidence'', JNum (Fin 0))]),
      (''{}'', JObj [])]\<close>

definition example_engine :: builtins where
  "example_engine =
     \<lparr>Number_toString = (\<lambda>n. ''NaN''),
      StringToNumber = (\<lambda>s. if s = ''0.9'' then Fin (9 / 10) else NaN),
      JSON_parse = map_of example_documents\<rparr>"

definition example_request :: "json option" where
  "example_request =
     Some (JObj [(''text'', JStr ''turn on the light''),
                 (''commands'', JArr [JStr ''lights_on'', JStr ''lights_off''])])"

definition answers :: "string \<Rightarrow> string \<Rightarrow> string \<Rightarrow> chat_reply" where
  "answers content system_message user_message = ChatContent (Some content)"

section \<open>C1: field extraction\<close>

subsection \<open>Property names and array indices\<close>

lemma dec_str_digits: "set (dec_str n) \<subseteq> set ''0123456789''"
proof (induction n rule: dec_str.induct)
  case (1 n)
  have d: "digit_char m \<in> set ''0123456789''" for m
    unfolding digit_char_def by (rule nth_mem) simp
  show ?case
  proof (cases "n < 10")
    case True
    then show ?thesis using d [of n] by (subst dec_str.simps) simp
  next
    case False
    then show ?thesis using 1 d [of "n mod 10"] by (subst dec_str.simps) simp
  qed
qed

lemma dec_str_not_Nil: "dec_str n \<noteq> []"
  by (subst dec_str.simps) simp

lemma letter_name_not_index:
  assumes "f \<noteq> []" and "hd f \<notin> set ''0123456789''"
  shows "f \<notin> set (map dec_str ns)"
proof
  assume "f \<in> set (map dec_str ns)"
  then obtain n where "f = dec_str n" by auto
  with assms(1) have "hd f \<in> set (dec_str n)" by simp
  with dec_str_digits [of n] assms(2) show False by blast
qed

lemma possibleFields_letters:
  "f \<in> set possibleFields \<Longrightarrow> f \<noteq> [] \<and> hd f \<notin> set ''0123456789'' \<and> f \<noteq> ''length''"
  by (auto simp: possibleFields_def)

lemma map_of_index_None:
  assumes "f \<noteq> []" and "hd f \<notin> set ''0123456789''" and "length ns = length vs"
  shows "map_of (zip (map dec_str ns) vs) f = None"
  using letter_name_not_index [OF assms(1,2), of ns] assms(3)
  by (simp add: map_of_zip_is_None)

lemma field_hit_named:
  assumes "f \<in> set possibleFields"
  shows "field_hit c f = named_field c f"
proof -
  from possibleFields_letters [OF assms]
  have f: "f \<noteq> []" "hd f \<notin> set ''0123456789''" "f \<noteq> ''length''" by simp_all
  show ?thesis
  proof (cases c)
    case (JArr xs)
    then show ?thesis
      using letter_name_not_index [OF f(1,2), of "[0..<length xs]"] f(3)
      by (simp add: field_hit_def named_field_def hasOwnProperty_def Object_keys_def)
  next
    case (JStr s)
    then show ?thesis
      using letter_name_not_index [OF f(1,2), of "[0..<length s]"] f(3)
      by (simp add: field_hit_def named_field_def hasOwnProperty_def Object_keys_def)
  next
    case (JObj kvs)
    then show ?thesis
      using f(3)
      by (auto simp: field_hit_def named_field_def hasOwnProperty_def Object_keys_def get_prop_def
                     map_of_eq_None_iff
               split: option.splits dest: map_of_SomeD intro: rev_image_eqI)
  qed (simp_all add: field_hit_def named_field_def hasOwnProperty_def Object_keys_def)
qed

lemma scan_fields_first_some:
  "set fs \<subseteq> set possibleFields \<Longrightarrow>
   scan_fields B c fs = map_option (\<lambda>v. map_sum id trim (ToString B v)) (first_some (named_field c) fs)"
  by (induction fs) (auto simp: field_hit_named split: option.splits)

lemma scan_keys_first_some:
  "scan_keys c ks = map_option trim (first_some (secret_like c) ks)"
proof (induction ks)
  case Nil
  then show ?case by simp
next
  case (Cons k ks)
  show ?case
  proof (cases "get_prop c k")
    case None
    then show ?thesis using Cons by (simp add: secret_like_def)
  next
    case (Some v)
    then show ?thesis using Cons by (cases v) (simp_all add: secret_like_def)
  qed
qed

subsection \<open>The two loops as searches\<close>

lemma extractKeyFromBody_refines:
  "extractKeyFromBody B body = extract_spec possibleFields B body"
proof -
  define c where "c = candidate_of body"
  have cand: "(case body of JArr (x # xs) \<Rightarrow> x | _ \<Rightarrow> body) = c"
    unfolding c_def by (cases body rule: candidate_of.cases) simp_all
  have names: "scan_fields B c possibleFields
      = map_option (\<lambda>v. map_sum id trim (ToString B v)) (first_some (named_field c) possibleFields)"
    by (rule scan_fields_first_some) simp
  have keys: "truthy c \<and> typeof (Some c) = ''object'' \<Longrightarrow> Object_keys c = field_names c"
    by (cases c) (simp_all add: Object_keys_def field_names_def)
  have prim: "\<not> (truthy c \<and> typeof (Some c) = ''object'') \<Longrightarrow>
      first_some (secret_like c) (field_names c) = None"
    by (cases c) (simp_all add: field_names_def)
  have falsy: "\<not> truthy body \<Longrightarrow> extract_spec possibleFields B body = Inr None"
    by (cases body) (simp_all add: extract_spec_def named_field_def field_names_def possibleFields_def)
  show ?thesis
  proof (cases "truthy body")
    case False
    then show ?thesis using falsy by (simp add: extractKeyFromBody_def)
  next
    case True
    show ?thesis
    proof (cases "first_some (named_field c) possibleFields")
      case (Some v)
      then show ?thesis
        using True names
        by (cases "ToString B v")
           (simp_all add: extractKeyFromBody_def extract_spec_def cand c_def [symmetric])
    next
      case None
      then show ?thesis
        using True names keys prim
        by (auto simp: extractKeyFromBody_def extract_spec_def cand c_def [symmetric]
                       scan_keys_first_some
                 split: option.splits)
    qed
  qed
qed

text \<open>
  C1, as the code has it. For every response body, \<^verbatim>\<open>extractKeyFromBody\<close> works on the
  first element of a non-empty array and on the body itself otherwise; it scans the names
  api_key, apikey, key, token, value, secret and, seventh, apiKey, in this order, and
  returns the first present truthy value, string-coerced and trimmed (an exception of the
  coercion leaves the function); when no name matches it returns the first string field
  of the candidate longer than 20, trimmed; otherwise null.
\<close>

theorem extractKeyFromBody_spec:
  "extractKeyFromBody B body = extract_spec possibleFields B body \<and>
   possibleFields = claimed_fields @ [''apiKey'']"
  using extractKeyFromBody_refines [of B body]
  by (simp add: possibleFields_def claimed_fields_def)

theorem extractKeyFromBody_spec_witness:
  "extract_spec possibleFields example_engine
     (JArr [JObj [(''id'', JStr ''1''), (''api_key'', JStr ''  sk-abc  '')]])
   = Inr (Some ''sk-abc'')"
  unfolding extractKeyFromBody_spec [THEN conjunct1, symmetric]
  by (simp add: extractKeyFromBody_def possibleFields_def field_hit_def hasOwnProperty_def
                Object_keys_def get_prop_def trim_def js_ws_def)

text \<open>
  C1 as stated, with the six names only, fails: a body whose key sits under \<^verbatim>\<open>apiKey\<close>
  yields the key, where the six names and the length rule yield null.
\<close>

theorem extractKeyFromBody_six_names_counterexample:
  "extractKeyFromBody example_engine (JObj [(''apiKey'', JStr ''abc'')]) = Inr (Some ''abc'') \<and>
   extract_spec claimed_fields example_engine (JObj [(''apiKey'', JStr ''abc'')]) = Inr None"
  by (simp add: extractKeyFromBody_def possibleFields_def field_hit_def hasOwnProperty_def
                Object_keys_def get_prop_def trim_def js_ws_def extract_spec_def claimed_fields_def
                named_field_def field_names_def secret_like_def)

section \<open>C2 and C10: the retry loop\<close>

lemma loadKey_loop_all_fail:
  assumes "\<forall>i. attempt \<le> i \<and> i \<le> maxAttempts \<longrightarrow> isl (try_attempt B (net i))"
  shows "loadKey_loop B net maxAttempts delayMs attempt trace
         = (None, trace @ concat (map (attempt_events B net maxAttempts delayMs) [attempt..maxAttempts]))"
  using assms
proof (induction B net maxAttempts delayMs attempt trace rule: loadKey_loop.induct)
  case (1 B net maxAttempts delayMs attempt trace)
  show ?case
  proof (cases "attempt \<le> maxAttempts")
    case False
    then show ?thesis by (subst loadKey_loop.simps) simp
  next
    case True
    with "1.prems" obtain err where err: "try_attempt B (net attempt) = Inl err"
      by (cases "try_attempt B (net attempt)") auto
    have rest: "\<forall>i. attempt + 1 \<le> i \<and> i \<le> maxAttempts \<longrightarrow> isl (try_attempt B (net i))"
      using "1.prems" by simp
    have up: "[attempt..maxAttempts] = attempt # [attempt + 1..maxAttempts]"
      using True by (simp add: upto_rec1)
    have ev: "attempt_events B net maxAttempts delayMs attempt
              = [Request, Warn attempt err] @ (if attempt < maxAttempts then [Wait delayMs] else [])"
      using err by (simp add: attempt_events_def)
    show ?thesis
      using True err "1.IH" [OF True err rest]
      by (subst loadKey_loop.simps) (simp add: up ev)
  qed
qed

lemma requests_of_attempts:
  "length (filter is_Request (concat (map (attempt_events B net maxAttempts delayMs) js))) = length js"
  by (induction js) (auto simp: attempt_events_def split: sum.splits)

lemma waits_of_failed_attempts:
  assumes "\<forall>i\<in>set js. isl (try_attempt B (net i))"
  shows "filter is_Wait (concat (map (attempt_events B net maxAttempts delayMs) js))
         = replicate (length (filter (\<lambda>i. i < maxAttempts) js)) (Wait delayMs)"
  using assms by (induction js) (auto simp: attempt_events_def split: sum.splits)

lemma attempts_before_last:
  assumes "1 \<le> m"
  shows "length (filter (\<lambda>i. i < m) [1..m]) = nat (m - 1)"
proof -
  have "[1..m] = [1..m - 1] @ [m]" using assms by (simp add: upto_rec2)
  moreover have "filter (\<lambda>i. i < m) [1..m - 1] = [1..m - 1]" by (simp add: filter_id_conv)
  ultimately show ?thesis by simp
qed

lemma try_attempt_nonempty: "try_attempt B r = Inr key \<Longrightarrow> key \<noteq> []"
  by (auto simp: try_attempt_def split: sum.splits prod.splits if_splits option.splits)

lemma loadKey_loop_nonempty:
  "fst (loadKey_loop B net maxAttempts delayMs attempt trace) = Some key \<Longrightarrow> key \<noteq> []"
proof (induction B net maxAttempts delayMs attempt trace rule: loadKey_loop.induct)
  case (1 B net maxAttempts delayMs attempt trace)
  show ?case
  proof (cases "attempt \<le> maxAttempts")
    case False
    with "1.prems" show ?thesis by (subst (asm) loadKey_loop.simps) simp
  next
    case True
    show ?thesis
    proof (cases "try_attempt B (net attempt)")
      case (Inr k)
      with True "1.prems" have "k = key" by (subst (asm) loadKey_loop.simps) simp
      with Inr show ?thesis by (auto dest: try_attempt_nonempty)
    next
      case (Inl err)
      with True "1.prems" show ?thesis
        by (subst (asm) loadKey_loop.simps) (simp add: "1.IH" [OF True Inl])
    qed
  qed
qed

lemma loadKeyFromMockAPI_nonempty:
  "fst (loadKeyFromMockAPI B net maxAttempts delayMs) = Some key \<Longrightarrow> key \<noteq> []"
  unfolding loadKeyFromMockAPI_def by (rule loadKey_loop_nonempty)

text \<open>
  C2. For every \<open>maxAttempts \<ge> 1\<close>, when every attempt fails (the fetch rejects, the
  status is not a success, the body is not JSON, the extraction throws or finds no key),
  the resolver returns null, having issued exactly \<open>maxAttempts\<close> requests, one per
  attempt in order, with a wait of \<open>delayMs\<close> after each failed attempt but the last. The
  function has no exceptional result: every error of an attempt is caught in the loop.
\<close>

theorem loadKeyFromMockAPI_all_fail:
  assumes "1 \<le> maxAttempts"
      and "\<forall>i\<in>{1..maxAttempts}. isl (try_attempt B (net i))"
  shows "fst (loadKeyFromMockAPI B net maxAttempts delayMs) = None \<and>
         length (filter is_Request (snd (loadKeyFromMockAPI B net maxAttempts delayMs))) = nat maxAttempts \<and>
         filter is_Wait (snd (loadKeyFromMockAPI B net maxAttempts delayMs))
           = replicate (nat (maxAttempts - 1)) (Wait delayMs) \<and>
         snd (loadKeyFromMockAPI B net maxAttempts delayMs)
           = concat (map (attempt_events B net maxAttempts delayMs) [1..maxAttempts])"
proof -
  have all: "\<forall>i. 1 \<le> i \<and> i \<le> maxAttempts \<longrightarrow> isl (try_attempt B (net i))"
    using assms(2) by simp
  have run: "loadKeyFromMockAPI B net maxAttempts delayMs
             = (None, concat (map (attempt_events B net maxAttempts delayMs) [1..maxAttempts]))"
    unfolding loadKeyFromMockAPI_def using loadKey_loop_all_fail [OF all, of delayMs "[]"] by simp
  have set: "\<forall>i\<in>set [1..maxAttempts]. isl (try_attempt B (net i))"
    using assms(2) by simp
  show ?thesis
    using assms(1)
    by (simp add: run requests_of_attempts waits_of_failed_attempts [OF set] attempts_before_last)
qed

theorem loadKeyFromMockAPI_all_fail_witness:
  "(1::int) \<le> 3 \<and>
   fst (loadKeyFromMockAPI example_engine
          (\<lambda>i. if i = 1 then Rejects NetworkError
               else if i = 2 then Responds 503 None
               else Responds 200 (Some (JObj [(''id'', JStr ''1'')]))) 3 1500) = None \<and>
   length (filter is_Request (snd (loadKeyFromMockAPI example_engine
          (\<lambda>i. if i = 1 then Rejects NetworkError
               else if i = 2 then Responds 503 None
               else Responds 200 (Some (JObj [(''id'', JStr ''1'')]))) 3 1500))) = 3 \<and>
   filter is_Wait (snd (loadKeyFromMockAPI example_engine
          (\<lambda>i. if i = 1 then Rejects NetworkError
               else if i = 2 then Responds 503 None
               else Responds 200 (Some (JObj [(''id'', JStr ''1'')]))) 3 1500)) = [Wait 1500, Wait 1500]"
proof -
  let ?net = "\<lambda>i::int. if i = 1 then Rejects NetworkError
               else if i = 2 then Responds 503 None
               else Responds 200 (Some (JObj [(''id'', JStr ''1'')]))"
  have h1: "(1::int) \<le> 3" by simp
  have h2: "\<forall>i\<in>{1..3}. isl (try_attempt example_engine (?net i))"
    by (simp add: try_attempt_def fetchWithTimeout_def res_ok_def extractKeyFromBody_def
                  possibleFields_def field_hit_def hasOwnProperty_def Object_keys_def get_prop_def)
  note t = loadKeyFromMockAPI_all_fail [OF h1 h2, of 1500]
  from t have c1: "fst (loadKeyFromMockAPI example_engine ?net 3 1500) = None"
    by blast
  from t have "length (filter is_Request (snd (loadKeyFromMockAPI example_engine ?net 3 1500))) = nat 3"
    by blast
  then have c2: "length (filter is_Request (snd (loadKeyFromMockAPI example_engine ?net 3 1500))) = 3"
    by simp
  from t have "filter is_Wait (snd (loadKeyFromMockAPI example_engine ?net 3 1500))
               = replicate (nat (3 - 1)) (Wait 1500)"
    by blast
  then have c3: "filter is_Wait (snd (loadKeyFromMockAPI example_engine ?net 3 1500))
                 = [Wait 1500, Wait 1500]"
    by (simp add: numeral_2_eq_2)
  show ?thesis
    using h1 c1 c2 c3 by blast
qed

text \<open>
  C10. The resolver returns null or a non-empty string, whatever the endpoint replies and
  whatever the bound: an extracted key that is empty after trimming makes the attempt fail
  like a missing key, and a state that the bootstrap tags \<^verbatim>\<open>mockapi\<close> holds the resolver's
  non-empty key.
\<close>

theorem resolver_key_nonempty:
  "(fst (loadKeyFromMockAPI B net maxAttempts delayMs) = None \<or>
    (\<exists>key. fst (loadKeyFromMockAPI B net maxAttempts delayMs) = Some key \<and> key \<noteq> [])) \<and>
   (res_ok status \<and> extractKeyFromBody B body = Inr (Some []) \<longrightarrow>
      try_attempt B (Responds status (Some body)) = Inl NoKeyError) \<and>
   (main_v2 B net env_key = Running st \<and> KEY_SOURCE st = Some ''mockapi'' \<longrightarrow>
      (\<exists>key. OPENAI_API_KEY st = Some key \<and> key \<noteq> [] \<and>
             fst (loadKeyFromMockAPI B net 3 1500) = Some key))"
proof (intro conjI impI)
  show "fst (loadKeyFromMockAPI B net maxAttempts delayMs) = None \<or>
    (\<exists>key. fst (loadKeyFromMockAPI B net maxAttempts delayMs) = Some key \<and> key \<noteq> [])"
    by (cases "fst (loadKeyFromMockAPI B net maxAttempts delayMs)")
       (auto dest: loadKeyFromMockAPI_nonempty)
next
  assume "res_ok status \<and> extractKeyFromBody B body = Inr (Some [])"
  then show "try_attempt B (Responds status (Some body)) = Inl NoKeyError"
    by (simp add: try_attempt_def fetchWithTimeout_def)
next
  assume run: "main_v2 B net env_key = Running st \<and> KEY_SOURCE st = Some ''mockapi''"
  obtain key trace where r: "loadKeyFromMockAPI B net 3 1500 = (key, trace)"
    by (cases "loadKeyFromMockAPI B net 3 1500")
  from run r have "str_truthy key \<and> OPENAI_API_KEY st = key"
    by (auto simp: main_v2_def initKey_def initial_state_def split: if_splits)
  then show "\<exists>key. OPENAI_API_KEY st = Some key \<and> key \<noteq> [] \<and>
             fst (loadKeyFromMockAPI B net 3 1500) = Some key"
    using r by (cases key) simp_all
qed

theorem resolver_key_nonempty_witness:
  "res_ok 200 \<and>
   extractKeyFromBody example_engine (JObj [(''key'', JStr ''   '')]) = Inr (Some []) \<and>
   try_attempt example_engine (Responds 200 (Some (JObj [(''key'', JStr ''   '')]))) = Inl NoKeyError \<and>
   fst (loadKeyFromMockAPI example_engine
          (\<lambda>i. Responds 200 (Some (JObj [(''key'', JStr ''   '')]))) 3 1500) \<noteq> Some [] \<and>
   main_v2 example_engine (\<lambda>i. Responds 200 (Some (JObj [(''key'', JStr '' sk-remote '')]))) None
     = Running \<lparr>OPENAI_API_KEY = Some ''sk-remote'', KEY_SOURCE = Some ''mockapi''\<rparr> \<and>
   fst (loadKeyFromMockAPI example_engine
          (\<lambda>i. Responds 200 (Some (JObj [(''key'', JStr '' sk-remote '')]))) 3 1500) = Some ''sk-remote''"
proof -
  let ?body = "JObj [(''key'', JStr ''   '')]"
  let ?good = "\<lambda>i::int. Responds 200 (Some (JObj [(''key'', JStr '' sk-remote '')]))"
  let ?st = "\<lparr>OPENAI_API_KEY = Some ''sk-remote'', KEY_SOURCE = Some ''mockapi''\<rparr>"
  have h1: "res_ok 200" by (simp add: res_ok_def)
  have h2: "extractKeyFromBody example_engine ?body = Inr (Some [])"
    by (simp add: extractKeyFromBody_def possibleFields_def field_hit_def hasOwnProperty_def
                  Object_keys_def get_prop_def trim_def js_ws_def)
  have h3: "main_v2 example_engine ?good None = Running ?st"
    by (simp add: main_v2_def initKey_def initial_state_def loadKeyFromMockAPI_def
                  loadKey_loop.simps try_attempt_def fetchWithTimeout_def res_ok_def
                  extractKeyFromBody_def possibleFields_def field_hit_def hasOwnProperty_def
                  Object_keys_def get_prop_def trim_def js_ws_def)
  note t = resolver_key_nonempty [of example_engine "\<lambda>i. Responds 200 (Some ?body)" 3 1500
                                     200 ?body None initial_state]
  note u = resolver_key_nonempty [of example_engine ?good 3 1500 200 ?body None ?st]
  from t h1 h2 have a: "try_attempt example_engine (Responds 200 (Some ?body)) = Inl NoKeyError"
    by blast
  from t have b: "fst (loadKeyFromMockAPI example_engine (\<lambda>i. Responds 200 (Some ?body)) 3 1500) \<noteq> Some []"
    by auto
  from u h3 have c: "fst (loadKeyFromMockAPI example_engine ?good 3 1500) = Some ''sk-remote''"
    by auto
  show ?thesis using h1 h2 h3 a b c by blast
qed

section \<open>C3: the bootstrap order\<close>

lemma main_v2_result:
  "main_v2 B net env_key =
     (case fst (loadKeyFromMockAPI B net 3 1500) of
        Some key \<Rightarrow> Running \<lparr>OPENAI_API_KEY = Some key, KEY_SOURCE = Some ''mockapi''\<rparr>
      | None \<Rightarrow>
          (if str_truthy env_key
           then Running \<lparr>OPENAI_API_KEY = env_key, KEY_SOURCE = Some ''env''\<rparr>
           else Exit 1))"
proof -
  obtain key trace where r: "loadKeyFromMockAPI B net 3 1500 = (key, trace)"
    by (cases "loadKeyFromMockAPI B net 3 1500")
  show ?thesis
  proof (cases key)
    case None
    then show ?thesis using r
      by (simp add: main_v2_def initKey_def initial_state_def)
  next
    case (Some k)
    moreover have "k \<noteq> []"
      using loadKeyFromMockAPI_nonempty [of B net 3 1500 k] r Some by simp
    ultimately show ?thesis using r
      by (simp add: main_v2_def initKey_def initial_state_def)
  qed
qed

lemma main_v2_credential:
  assumes "main_v2 B net env_key = Running st"
  shows "str_truthy (OPENAI_API_KEY st)"
proof (cases "fst (loadKeyFromMockAPI B net 3 1500)")
  case None
  with assms show ?thesis
    by (auto simp: main_v2_result split: if_splits)
next
  case (Some k)
  with assms loadKeyFromMockAPI_nonempty [OF Some] show ?thesis
    by (auto simp: main_v2_result)
qed

text \<open>
  C3. The bootstrap uses the resolver's credential and tags it \<^verbatim>\<open>mockapi\<close> (remote
  origin) when the resolver returns one; otherwise it uses the environment value, when
  that is present (defined and not empty), and tags it \<^verbatim>\<open>env\<close> (local fallback);
  otherwise the process exits with status 1. Whenever the bootstrap returns, a non-empty
  credential is installed.
\<close>

theorem initKey_order:
  "main_v2 B net env_key =
     (case fst (loadKeyFromMockAPI B net 3 1500) of
        Some key \<Rightarrow> Running \<lparr>OPENAI_API_KEY = Some key, KEY_SOURCE = Some ''mockapi''\<rparr>
      | None \<Rightarrow>
          (if str_truthy env_key
           then Running \<lparr>OPENAI_API_KEY = env_key, KEY_SOURCE = Some ''env''\<rparr>
           else Exit 1)) \<and>
   (\<forall>st. main_v2 B net env_key = Running st \<longrightarrow> str_truthy (OPENAI_API_KEY st))"
  using main_v2_result [of B net env_key] main_v2_credential [of B net env_key] by blast

theorem initKey_order_witness:
  "main_v2 example_engine (\<lambda>i. Responds 200 (Some (JArr [JObj [(''api_key'', JStr '' sk-remote '')]]))) (Some ''sk-env'')
     = Running \<lparr>OPENAI_API_KEY = Some ''sk-remote'', KEY_SOURCE = Some ''mockapi''\<rparr> \<and>
   main_v2 example_engine (\<lambda>i. Rejects NetworkError) (Some ''sk-env'')
     = Running \<lparr>OPENAI_API_KEY = Some ''sk-env'', KEY_SOURCE = Some ''env''\<rparr> \<and>
   main_v2 example_engine (\<lambda>i. Rejects NetworkError) None = Exit 1 \<and>
   main_v2 example_engine (\<lambda>i. Rejects NetworkError) (Some []) = Exit 1 \<and>
   str_truthy (OPENAI_API_KEY \<lparr>OPENAI_API_KEY = Some ''sk-env'', KEY_SOURCE = Some ''env''\<rparr>)"
proof -
  let ?good = "\<lambda>i::int. Responds 200 (Some (JArr [JObj [(''api_key'', JStr '' sk-remote '')]]))"
  let ?down = "\<lambda>i::int. Rejects NetworkError"
  have ok: "fst (loadKeyFromMockAPI example_engine ?good 3 1500) = Some ''sk-remote''"
    by (simp add: loadKeyFromMockAPI_def loadKey_loop.simps try_attempt_def fetchWithTimeout_def
                  res_ok_def extractKeyFromBody_def possibleFields_def field_hit_def
                  hasOwnProperty_def Object_keys_def get_prop_def trim_def js_ws_def)
  have ko: "fst (loadKeyFromMockAPI example_engine ?down 3 1500) = None"
    by (simp add: loadKeyFromMockAPI_def loadKey_loop.simps try_attempt_def fetchWithTimeout_def)
  have a: "main_v2 example_engine ?good (Some ''sk-env'')
           = Running \<lparr>OPENAI_API_KEY = Some ''sk-remote'', KEY_SOURCE = Some ''mockapi''\<rparr>"
    using initKey_order [of example_engine ?good "Some ''sk-env''"] by (simp add: ok)
  have b: "main_v2 example_engine ?down (Some ''sk-env'')
           = Running \<lparr>OPENAI_API_KEY = Some ''sk-env'', KEY_SOURCE = Some ''env''\<rparr>"
    using initKey_order [of example_engine ?down "Some ''sk-env''"] by (simp add: ko)
  have c: "main_v2 example_engine ?down None = Exit 1"
    using initKey_order [of example_engine ?down None] by (simp add: ko)
  have d: "main_v2 example_engine ?down (Some []) = Exit 1"
    using initKey_order [of example_engine ?down "Some []"] by (simp add: ko)
  have e: "str_truthy (OPENAI_API_KEY \<lparr>OPENAI_API_KEY = Some ''sk-env'', KEY_SOURCE = Some ''env''\<rparr>)"
    using initKey_order [of example_engine ?down "Some ''sk-env''"] b by blast
  show ?thesis using a b c d e by blast
qed

section \<open>C8 and C9: health and transcription\<close>

text \<open>
  C8, as the code has it. In the second version of the file the health probe, which is
  registered after the bootstrap, answers \<^verbatim>\<open>{ok: true, port, keySource}\<close>, where
  \<^verbatim>\<open>keySource\<close> is \<^verbatim>\<open>mockapi\<close> when the resolver supplied the active credential and \<^verbatim>\<open>env\<close>
  when the environment did. In the first version it answers \<^verbatim>\<open>{ok: true, port, hasKey}\<close>.
\<close>

theorem health_reports_source:
  "(main_v2 B net env_key = Running st \<longrightarrow>
      health_v2 st env_port =
        Response 200
          (JObj [(''ok'', JBool True), (''port'', PORT env_port),
                 (''keySource'',
                    JStr (case fst (loadKeyFromMockAPI B net 3 1500) of
                            Some key \<Rightarrow> ''mockapi'' | None \<Rightarrow> ''env''))]) \<and>
      OPENAI_API_KEY st =
        (case fst (loadKeyFromMockAPI B net 3 1500) of Some key \<Rightarrow> Some key | None \<Rightarrow> env_key)) \<and>
   health_v1 env_key env_port =
     Response 200
       (JObj [(''ok'', JBool True), (''port'', PORT env_port), (''hasKey'', JBool (str_truthy env_key))])"
proof (intro conjI impI)
  assume run: "main_v2 B net env_key = Running st"
  show "health_v2 st env_port =
        Response 200
          (JObj [(''ok'', JBool True), (''port'', PORT env_port),
                 (''keySource'',
                    JStr (case fst (loadKeyFromMockAPI B net 3 1500) of
                            Some key \<Rightarrow> ''mockapi'' | None \<Rightarrow> ''env''))])"
    using run
    by (cases "fst (loadKeyFromMockAPI B net 3 1500)")
       (auto simp: main_v2_result health_v2_def split: if_splits)
  show "OPENAI_API_KEY st =
        (case fst (loadKeyFromMockAPI B net 3 1500) of Some key \<Rightarrow> Some key | None \<Rightarrow> env_key)"
    using run
    by (cases "fst (loadKeyFromMockAPI B net 3 1500)")
       (auto simp: main_v2_result split: if_splits)
next
  show "health_v1 env_key env_port =
     Response 200
       (JObj [(''ok'', JBool True), (''port'', PORT env_port), (''hasKey'', JBool (str_truthy env_key))])"
    by (simp add: health_v1_def)
qed

theorem health_reports_source_witness:
  "main_v2 example_engine (\<lambda>i. Rejects NetworkError) (Some ''sk-env'')
     = Running \<lparr>OPENAI_API_KEY = Some ''sk-env'', KEY_SOURCE = Some ''env''\<rparr> \<and>
   health_v2 \<lparr>OPENAI_API_KEY = Some ''sk-env'', KEY_SOURCE = Some ''env''\<rparr> None
     = Response 200
         (JObj [(''ok'', JBool True), (''port'', JNum (Fin 5500)), (''keySource'', JStr ''env'')])"
proof -
  let ?down = "\<lambda>i::int. Rejects NetworkError"
  let ?st = "\<lparr>OPENAI_API_KEY = Some ''sk-env'', KEY_SOURCE = Some ''env''\<rparr>"
  have ko: "fst (loadKeyFromMockAPI example_engine ?down 3 1500) = None"
    by (simp add: loadKeyFromMockAPI_def loadKey_loop.simps try_attempt_def fetchWithTimeout_def)
  have run: "main_v2 example_engine ?down (Some ''sk-env'') = Running ?st"
    by (simp add: main_v2_result ko)
  have "health_v2 ?st None =
        Response 200
          (JObj [(''ok'', JBool True), (''port'', PORT None),
                 (''keySource'',
                    JStr (case fst (loadKeyFromMockAPI example_engine ?down 3 1500) of
                            Some key \<Rightarrow> ''mockapi'' | None \<Rightarrow> ''env''))])"
    using health_reports_source [of example_engine ?down "Some ''sk-env''" ?st None] run by blast
  then have "health_v2 ?st None =
        Response 200 (JObj [(''ok'', JBool True), (''port'', JNum (Fin 5500)), (''keySource'', JStr ''env'')])"
    by (simp add: ko PORT_def)
  with run show ?thesis by blast
qed

text \<open>
  C8 as stated fails on the first version of the file: its health body has no
  \<^verbatim>\<open>keySource\<close>.
\<close>

theorem health_v1_counterexample:
  "health_v1 (Some ''sk-env'') None
     = Response 200 (JObj [(''ok'', JBool True), (''port'', JNum (Fin 5500)), (''hasKey'', JBool True)]) \<and>
   get_prop (body_of (health_v1 (Some ''sk-env'') None)) ''keySource'' = None"
  by (simp add: health_v1_def PORT_def get_prop_def)






section \<open>C7: validation of the intent request\<close>

lemma length_of_array:
  "get_prop (JArr xs) ''length'' = Some (JNum (Fin (of_nat (length xs))))"
proof -
  have no_index: "map_of (zip (map dec_str [0..<length xs]) xs) ''length'' = None"
    by (rule map_of_index_None) simp_all
  show ?thesis by (simp add: get_prop_def no_index)
qed

lemma invalid_intent_iff:
  "invalid_intent text commands = (\<not> is_string text \<or> \<not> is_nonempty_array commands)"
proof -
  have t: "(typeof text \<noteq> ''string'') = (\<not> is_string text)"
    by (cases "text" rule: typeof.cases) simp_all
  have c: "(\<not> Array_isArray commands \<or>
            \<not> truthy_opt (case commands of Some c \<Rightarrow> get_prop c ''length'' | None \<Rightarrow> None))
           = (\<not> is_nonempty_array commands)"
    by (cases commands rule: is_nonempty_array.cases) (simp_all add: length_of_array)
  show ?thesis unfolding invalid_intent_def using t c by blast
qed

lemma status_intent_failed: "status_of intent_failed = 500"
  by (simp add: intent_failed_def)

lemma status_finish_v1: "status_of (finish_v1 json) \<noteq> 400"
  by (cases json) (simp_all add: finish_v1_def Let_def status_intent_failed)

lemma status_finish_v2: "status_of (finish_v2 B commands reply) \<noteq> 400"
  by (simp add: finish_v2_def Let_def status_intent_failed split: sum.splits)

lemma intent_v1_invalid:
  "\<not> passes_validation req_body \<Longrightarrow> intent_v1 B chat req_body = Response 400 (error_body ''bad_request'')"
  by (simp add: intent_v1_def passes_validation_def request_text_def request_commands_def Let_def)

lemma intent_v2_invalid:
  "\<not> passes_validation req_body \<Longrightarrow> intent_v2 B chat req_body = Response 400 (error_body ''bad_request'')"
  by (simp add: intent_v2_def passes_validation_def request_text_def request_commands_def Let_def)

lemma intent_v1_valid:
  assumes "passes_validation req_body"
  shows "intent_v1 B chat req_body =
     (case prompt_v1 B req_body of
        Inl err \<Rightarrow> intent_failed
      | Inr msg \<Rightarrow>
          (case chat systemMsg msg of
             ChatThrows err \<Rightarrow> intent_failed
           | ChatNoMessage \<Rightarrow> intent_failed
           | ChatContent content \<Rightarrow>
               (case JSON_parse B (case content of Some s \<Rightarrow> s | None \<Rightarrow> ''null'') of
                  None \<Rightarrow> intent_failed
                | Some json \<Rightarrow> finish_v1 json)))"
  using assms
  by (simp add: intent_v1_def passes_validation_def request_text_def request_commands_def Let_def
                prompt_v1_def split: sum.splits)

lemma intent_v2_valid:
  assumes "passes_validation req_body"
  shows "intent_v2 B chat req_body =
     (case prompt_v2 B req_body of
        Inl err \<Rightarrow> intent_failed
      | Inr msg \<Rightarrow>
          (case chat systemMsg msg of
             ChatThrows err \<Rightarrow> intent_failed
           | reply \<Rightarrow> finish_v2 B (elems_of (request_commands req_body)) reply))"
  using assms
  by (simp add: intent_v2_def passes_validation_def request_text_def request_commands_def Let_def
                prompt_v2_def split: sum.splits chat_reply.splits)

lemma status_intent_v1: "(status_of (intent_v1 B chat req_body) = 400) = (\<not> passes_validation req_body)"
proof (cases "passes_validation req_body")
  case False
  then show ?thesis by (simp add: intent_v1_invalid)
next
  case True
  then show ?thesis
    by (simp add: intent_v1_valid status_intent_failed status_finish_v1
             split: sum.splits chat_reply.splits option.splits)
qed

lemma status_intent_v2: "(status_of (intent_v2 B chat req_body) = 400) = (\<not> passes_validation req_body)"
proof (cases "passes_validation req_body")
  case False
  then show ?thesis by (simp add: intent_v2_invalid)
next
  case True
  then show ?thesis
    by (simp add: intent_v2_valid status_intent_failed status_finish_v2
             split: sum.splits chat_reply.splits)
qed

text \<open>
  C7. In both versions the handler answers 400 \<^verbatim>\<open>{error: "bad_request"}\<close> exactly when
  \<^verbatim>\<open>text\<close> is not a string or \<^verbatim>\<open>commands\<close> is not a non-empty array, and no other request
  is answered 400; an empty string with a non-empty array passes.
\<close>

theorem intent_bad_request:
  "(intent_v1 B chat req_body = Response 400 (JObj [(''error'', JStr ''bad_request'')]))
     = (\<not> is_string (request_text req_body) \<or> \<not> is_nonempty_array (request_commands req_body)) \<and>
   (status_of (intent_v1 B chat req_body) = 400)
     = (\<not> is_string (request_text req_body) \<or> \<not> is_nonempty_array (request_commands req_body)) \<and>
   (intent_v2 B chat req_body = Response 400 (JObj [(''error'', JStr ''bad_request'')]))
     = (\<not> is_string (request_text req_body) \<or> \<not> is_nonempty_array (request_commands req_body)) \<and>
   (status_of (intent_v2 B chat req_body) = 400)
     = (\<not> is_string (request_text req_body) \<or> \<not> is_nonempty_array (request_commands req_body)) \<and>
   status_of (intent_v1 B chat (Some (JObj [(''text'', JStr []), (''commands'', JArr (x # xs))]))) \<noteq> 400 \<and>
   status_of (intent_v2 B chat (Some (JObj [(''text'', JStr []), (''commands'', JArr (x # xs))]))) \<noteq> 400"
proof -
  have v: "(\<not> passes_validation r)
           = (\<not> is_string (request_text r) \<or> \<not> is_nonempty_array (request_commands r))" for r
    by (simp add: passes_validation_def invalid_intent_iff)
  have s1: "(status_of (intent_v1 B chat r) = 400)
            = (\<not> is_string (request_text r) \<or> \<not> is_nonempty_array (request_commands r))" for r
    using status_intent_v1 [of B chat r] v [of r] by blast
  have s2: "(status_of (intent_v2 B chat r) = 400)
            = (\<not> is_string (request_text r) \<or> \<not> is_nonempty_array (request_commands r))" for r
    using status_intent_v2 [of B chat r] v [of r] by blast
  have b1: "(intent_v1 B chat r = Response 400 (JObj [(''error'', JStr ''bad_request'')]))
            = (\<not> is_string (request_text r) \<or> \<not> is_nonempty_array (request_commands r))" for r
  proof (cases "passes_validation r")
    case True
    with status_intent_v1 [of B chat r] have "status_of (intent_v1 B chat r) \<noteq> 400" by simp
    then have "intent_v1 B chat r \<noteq> Response 400 (JObj [(''error'', JStr ''bad_request'')])"
      by (cases "intent_v1 B chat r") auto
    with True v [of r] show ?thesis by blast
  next
    case False
    with intent_v1_invalid [of r B chat] v [of r] show ?thesis
      by (simp add: error_body_def)
  qed
  have b2: "(intent_v2 B chat r = Response 400 (JObj [(''error'', JStr ''bad_request'')]))
            = (\<not> is_string (request_text r) \<or> \<not> is_nonempty_array (request_commands r))" for r
  proof (cases "passes_validation r")
    case True
    with status_intent_v2 [of B chat r] have "status_of (intent_v2 B chat r) \<noteq> 400" by simp
    then have "intent_v2 B chat r \<noteq> Response 400 (JObj [(''error'', JStr ''bad_request'')])"
      by (cases "intent_v2 B chat r") auto
    with True v [of r] show ?thesis by blast
  next
    case False
    with intent_v2_invalid [of r B chat] v [of r] show ?thesis
      by (simp add: error_body_def)
  qed
  let ?r = "Some (JObj [(''text'', JStr []), (''commands'', JArr (x # xs))])"
  have e: "is_string (request_text ?r) \<and> is_nonempty_array (request_commands ?r)"
    by (simp add: request_text_def request_commands_def body_or_empty_def get_prop_def)
  from e s1 [of ?r] have e1: "status_of (intent_v1 B chat ?r) \<noteq> 400" by blast
  from e s2 [of ?r] have e2: "status_of (intent_v2 B chat ?r) \<noteq> 400" by blast
  show ?thesis using b1 s1 b2 s2 e1 e2 by blast
qed

theorem intent_bad_request_witness:
  "intent_v1 example_engine (answers ''{}'') (Some (JObj [(''text'', JStr ''hola'')]))
     = Response 400 (JObj [(''error'', JStr ''bad_request'')]) \<and>
   intent_v2 example_engine (answers ''{}'') (Some (JObj [(''text'', JStr ''hola''), (''commands'', JArr [])]))
     = Response 400 (JObj [(''error'', JStr ''bad_request'')]) \<and>
   intent_v2 example_engine (answers ''{}'') (Some (JObj [(''text'', JNull), (''commands'', JArr [JStr ''lights_on''])]))
     = Response 400 (JObj [(''error'', JStr ''bad_request'')]) \<and>
   status_of (intent_v2 example_engine (answers ''{}'')
                (Some (JObj [(''text'', JStr []), (''commands'', JArr [JStr ''lights_on''])]))) \<noteq> 400"
proof -
  let ?missing = "Some (JObj [(''text'', JStr ''hola'')])"
  let ?empty = "Some (JObj [(''text'', JStr ''hola''), (''commands'', JArr [])])"
  let ?notext = "Some (JObj [(''text'', JNull), (''commands'', JArr [JStr ''lights_on''])])"
  let ?good = "Some (JObj [(''text'', JStr []), (''commands'', JArr [JStr ''lights_on''])])"
  have a: "\<not> is_nonempty_array (request_commands ?missing)"
    by (simp add: request_commands_def body_or_empty_def get_prop_def)
  have b: "\<not> is_nonempty_array (request_commands ?empty)"
    by (simp add: request_commands_def body_or_empty_def get_prop_def)
  have c: "\<not> is_string (request_text ?notext)"
    by (simp add: request_text_def body_or_empty_def get_prop_def)
  have d: "is_string (request_text ?good) \<and> is_nonempty_array (request_commands ?good)"
    by (simp add: request_text_def request_commands_def body_or_empty_def get_prop_def)
  show ?thesis
    using a b c d
          intent_bad_request [of example_engine "answers ''{}''" ?missing]
          intent_bad_request [of example_engine "answers ''{}''" ?empty]
          intent_bad_request [of example_engine "answers ''{}''" ?notext]
          intent_bad_request [of example_engine "answers ''{}''" ?good]
    by blast
qed

section \<open>C4, C5 and C6: the classification result\<close>

subsection \<open>Properties of objects and the whitelist\<close>

lemma get_prop_object: "f \<noteq> ''length'' \<Longrightarrow> get_prop (JObj kvs) f = map_of kvs f"
  by (simp add: get_prop_def split: option.splits)

lemma map_of_set_prop: "map_of (set_prop kvs f v) g = (if g = f then Some v else map_of kvs g)"
  by (induction kvs f v rule: set_prop.induct) auto

lemma join_then_map_String:
  "Array_join B sep xs = Inr joined \<Longrightarrow> \<exists>whitelist. map_String B xs = Inr whitelist"
proof (induction xs arbitrary: joined)
  case Nil
  then show ?case by simp
next
  case (Cons x xs)
  from Cons.prems obtain s where s: "ToString B x = Inr s"
    by (cases "x = JNull") (auto split: sum.splits)
  have "\<exists>whitelist. map_String B xs = Inr whitelist"
  proof (cases "xs = []")
    case True
    then show ?thesis by simp
  next
    case False
    with Cons.prems obtain r where "Array_join B sep xs = Inr r"
      by (auto split: sum.splits if_splits)
    then show ?thesis by (rule Cons.IH)
  qed
  with s show ?case by auto
qed

lemma map_String_members:
  "map_String B xs = Inr whitelist \<Longrightarrow> (s \<in> set whitelist) = (\<exists>m\<in>set xs. ToString B m = Inr s)"
proof (induction xs arbitrary: whitelist)
  case Nil
  then show ?case by auto
next
  case (Cons x xs)
  from Cons.prems obtain t ts where
    t: "ToString B x = Inr t" and ts: "map_String B xs = Inr ts" and w: "whitelist = t # ts"
    by (auto split: sum.splits)
  from Cons.IH [OF ts] t w show ?case by auto
qed

lemma map_String_strings: "map_String B (map JStr names) = Inr names"
  by (induction names) simp_all

lemma Set_has_whitelisted:
  assumes "map_String B commands = Inr whitelist"
  shows "(if \<not> Set_has whitelist (case command of Some v \<Rightarrow> v | None \<Rightarrow> JNull) then JNull
          else (case command of Some v \<Rightarrow> v | None \<Rightarrow> JNull))
         = whitelisted B commands command"
proof (cases command)
  case None
  then show ?thesis by (simp add: whitelisted_def)
next
  case (Some v)
  then show ?thesis
    using map_String_members [OF assms]
    by (cases v) (simp_all add: whitelisted_def)
qed

subsection \<open>The second version after a reply with content\<close>

lemma finish_v2_content:
  assumes "map_String B commands = Inr whitelist"
  shows "finish_v2 B commands (ChatContent (Some content)) =
     (let out = (case JSON_parse B content of Some json \<Rightarrow> json | None \<Rightarrow> JObj []) in
      if out = JNull then intent_failed
      else
        (case ToNumber B (case get_prop out ''confidence'' of Some v \<Rightarrow> v | None \<Rightarrow> JNum (Fin (1 / 2))) of
           Inl err \<Rightarrow> intent_failed
         | Inr n \<Rightarrow>
             Response 200
               (JObj [(''command'', whitelisted B commands (get_prop out ''command'')),
                      (''confidence'', JNum (if num_truthy n then n else Fin (1 / 2))),
                      (''source'', JStr ''openai'')])))"
proof -
  define out where "out = (case JSON_parse B content of Some json \<Rightarrow> json | None \<Rightarrow> JObj [])"
  define confidence where
    "confidence = (case get_prop out ''confidence'' of Some v \<Rightarrow> v | None \<Rightarrow> JNum (Fin (1 / 2)))"
  note w = Set_has_whitelisted [OF assms, of "get_prop out ''command''"]
  have "finish_v2 B commands (ChatContent (Some content)) =
          (if out = JNull then intent_failed
           else (case ToNumber B confidence of
                   Inl err \<Rightarrow> intent_failed
                 | Inr n \<Rightarrow>
                     Response 200
                       (JObj [(''command'',
                               (if \<not> Set_has whitelist (case get_prop out ''command'' of Some v \<Rightarrow> v | None \<Rightarrow> JNull)
                                then JNull
                                else (case get_prop out ''command'' of Some v \<Rightarrow> v | None \<Rightarrow> JNull))),
                              (''confidence'', JNum (if num_truthy n then n else Fin (1 / 2))),
                              (''source'', JStr ''openai'')])))"
    unfolding finish_v2_def Let_def out_def [symmetric] confidence_def [symmetric]
    by (simp only: assms chat_reply.case option.case sum.case out_def [symmetric] confidence_def [symmetric])
  then have "finish_v2 B commands (ChatContent (Some content)) =
          (if out = JNull then intent_failed
           else (case ToNumber B confidence of
                   Inl err \<Rightarrow> intent_failed
                 | Inr n \<Rightarrow>
                     Response 200
                       (JObj [(''command'', whitelisted B commands (get_prop out ''command'')),
                              (''confidence'', JNum (if num_truthy n then n else Fin (1 / 2))),
                              (''source'', JStr ''openai'')])))"
    by (simp only: w)
  then show ?thesis
    unfolding Let_def out_def confidence_def .
qed

lemma intent_v2_content:
  assumes "passes_validation req_body"
      and "prompt_v2 B req_body = Inr msg"
      and "chat systemMsg msg = ChatContent (Some content)"
  shows "intent_v2 B chat req_body =
     (let out = (case JSON_parse B content of Some json \<Rightarrow> json | None \<Rightarrow> JObj []) in
      if out = JNull then intent_failed
      else
        (case ToNumber B (case get_prop out ''confidence'' of Some v \<Rightarrow> v | None \<Rightarrow> JNum (Fin (1 / 2))) of
           Inl err \<Rightarrow> intent_failed
         | Inr n \<Rightarrow>
             Response 200
               (JObj [(''command'', whitelisted B (elems_of (request_commands req_body)) (get_prop out ''command'')),
                      (''confidence'', JNum (if num_truthy n then n else Fin (1 / 2))),
                      (''source'', JStr ''openai'')])))"
proof -
  from assms(2) obtain joined where "Array_join B '', '' (elems_of (request_commands req_body)) = Inr joined"
    by (cases "Array_join B '', '' (elems_of (request_commands req_body))") (auto simp: prompt_v2_def)
  then obtain whitelist where w: "map_String B (elems_of (request_commands req_body)) = Inr whitelist"
    using join_then_map_String by blast
  show ?thesis
    using assms by (simp add: intent_v2_valid finish_v2_content [OF w])
qed

subsection \<open>The first version after a reply with content\<close>

lemma intent_v1_content:
  assumes "passes_validation req_body"
      and "prompt_v1 B req_body = Inr msg"
      and "chat systemMsg msg = ChatContent (Some content)"
  shows "intent_v1 B chat req_body =
     (case JSON_parse B content of None \<Rightarrow> intent_failed | Some json \<Rightarrow> finish_v1 json)"
  using assms by (simp add: intent_v1_valid)

lemma finish_v1_object:
  "\<exists>fields. finish_v1 (JObj kvs) = Response 200 (JObj fields) \<and>
     map_of fields ''command'' =
       Some (case map_of kvs ''command'' of Some (JStr s) \<Rightarrow> JStr s | _ \<Rightarrow> JNull) \<and>
     map_of fields ''confidence'' =
       Some (case map_of kvs ''confidence'' of Some (JNum n) \<Rightarrow> JNum n | _ \<Rightarrow> JNum (Fin (1 / 2))) \<and>
     map_of fields ''source'' = Some (JStr ''openai'')"
proof -
  have cmd: "(typeof (map_of kvs ''command'') \<noteq> ''string'') = (\<not> is_string (map_of kvs ''command''))"
    by (cases "map_of kvs ''command''" rule: typeof.cases) simp_all
  have conf: "typeof (map_of kvs ''confidence'') = ''number'' \<Longrightarrow>
      \<exists>n. map_of kvs ''confidence'' = Some (JNum n)"
    by (cases "map_of kvs ''confidence''" rule: typeof.cases) simp_all
  have conf': "typeof (map_of kvs ''confidence'') \<noteq> ''number'' \<Longrightarrow>
      (case map_of kvs ''confidence'' of Some (JNum n) \<Rightarrow> JNum n | _ \<Rightarrow> JNum (Fin (1 / 2))) = JNum (Fin (1 / 2))"
    by (cases "map_of kvs ''confidence''" rule: typeof.cases) simp_all
  have cmd1: "is_string (map_of kvs ''command'') \<Longrightarrow> \<exists>s. map_of kvs ''command'' = Some (JStr s)"
    by (cases "map_of kvs ''command''" rule: is_string.cases) simp_all
  have cmd2: "\<not> is_string (map_of kvs ''command'') \<Longrightarrow>
      (case map_of kvs ''command'' of Some (JStr s) \<Rightarrow> JStr s | _ \<Rightarrow> JNull) = JNull"
    by (cases "map_of kvs ''command''" rule: is_string.cases) simp_all
  show ?thesis
    using cmd conf conf' cmd1 cmd2
    by (auto simp: finish_v1_def Let_def map_of_set_prop)
qed

subsection \<open>The example request\<close>

lemma example_passes: "passes_validation example_request"
  by (simp add: passes_validation_def invalid_intent_iff request_text_def request_commands_def
                example_request_def body_or_empty_def get_prop_def)

lemma example_commands:
  "elems_of (request_commands example_request) = [JStr ''lights_on'', JStr ''lights_off'']"
  by (simp add: request_commands_def example_request_def body_or_empty_def get_prop_def)

lemma example_prompt_v1:
  "prompt_v1 example_engine example_request
   = Inr (userMsg_v1 ''turn on the light'' ''lights_on, lights_off'')"
  by (simp add: prompt_v1_def example_commands)
     (simp add: request_text_def example_request_def body_or_empty_def get_prop_def)

lemma example_prompt_v2:
  "prompt_v2 example_engine example_request
   = Inr (userMsg_v2 ''turn on the light'' ''lights_on, lights_off'')"
  by (simp add: prompt_v2_def example_commands)
     (simp add: request_text_def example_request_def body_or_empty_def get_prop_def)

lemma example_answers: "answers content systemMsg msg = ChatContent (Some content)"
  by (simp add: answers_def)

lemma example_parse:
  \<open>JSON_parse example_engine ''{"command":"lights_dim"}'' = Some (JObj [(''command'', JStr ''lights_dim'')])\<close>
  \<open>JSON_parse example_engine ''{"command":"lights_on"}'' = Some (JObj [(''command'', JStr ''lights_on'')])\<close>
  \<open>JSON_parse example_engine ''{"command":"lights_on","confidence":0.9}''
     = Some (JObj [(''command'', JStr ''lights_on''), (''confidence'', JNum (Fin (9 / 10)))])\<close>
  \<open>JSON_parse example_engine ''{"command":"lights_on","confidence":"0.9"}''
     = Some (JObj [(''command'', JStr ''lights_on''), (''confidence'', JStr ''0.9'')])\<close>
  \<open>JSON_parse example_engine ''{"command":"lights_on","confidence":0}''
     = Some (JObj [(''command'', JStr ''lights_on''), (''confidence'', JNum (Fin 0))])\<close>
  \<open>JSON_parse example_engine ''not json'' = None\<close>
  by (simp_all add: example_engine_def example_documents_def)

lemmas example_intent_v1 =
  intent_v1_content [of example_request example_engine _ "answers content" content,
                     OF example_passes example_prompt_v1 example_answers] for content

lemmas example_intent_v2 =
  intent_v2_content [of example_request example_engine _ "answers content" content,
                     OF example_passes example_prompt_v2 example_answers] for content

subsection \<open>The claims\<close>

text \<open>
  C4, as the code has it. In the second version, for a request that passes validation and
  is answered 200, the command of the response is the command the model returned when
  that is a string equal to the string form of a member of the request's commands (for a
  list of strings: equal to a member), and null in every other case. The first version
  has no whitelist: it returns any string command the model sent.
\<close>

theorem intent_whitelist:
  "(passes_validation req_body \<and> prompt_v2 B req_body = Inr msg \<and>
    chat systemMsg msg = ChatContent (Some content) \<and> JSON_parse B content = Some out \<and>
    intent_v2 B chat req_body = Response 200 body \<longrightarrow>
      get_prop body ''command''
        = Some (whitelisted B (elems_of (request_commands req_body)) (get_prop out ''command''))) \<and>
   whitelisted B (map JStr names) command
     = (case command of Some (JStr s) \<Rightarrow> if s \<in> set names then JStr s else JNull | _ \<Rightarrow> JNull) \<and>
   (passes_validation req_body \<and> prompt_v1 B req_body = Inr msg1 \<and>
    chat systemMsg msg1 = ChatContent (Some content1) \<and> JSON_parse B content1 = Some (JObj kvs) \<and>
    map_of kvs ''command'' = Some (JStr s1) \<longrightarrow>
      (\<exists>fields. intent_v1 B chat req_body = Response 200 (JObj fields) \<and>
                map_of fields ''command'' = Some (JStr s1)))"
proof (intro conjI impI)
  assume a: "passes_validation req_body \<and> prompt_v2 B req_body = Inr msg \<and>
    chat systemMsg msg = ChatContent (Some content) \<and> JSON_parse B content = Some out \<and>
    intent_v2 B chat req_body = Response 200 body"
  then have run: "intent_v2 B chat req_body =
      (if out = JNull then intent_failed
       else
         (case ToNumber B (case get_prop out ''confidence'' of Some v \<Rightarrow> v | None \<Rightarrow> JNum (Fin (1 / 2))) of
            Inl err \<Rightarrow> intent_failed
          | Inr n \<Rightarrow>
              Response 200
                (JObj [(''command'', whitelisted B (elems_of (request_commands req_body)) (get_prop out ''command'')),
                       (''confidence'', JNum (if num_truthy n then n else Fin (1 / 2))),
                       (''source'', JStr ''openai'')])))"
    using intent_v2_content [of req_body B msg chat content] by (simp add: Let_def)
  from a have ok: "intent_v2 B chat req_body = Response 200 body" by simp
  show "get_prop body ''command''
        = Some (whitelisted B (elems_of (request_commands req_body)) (get_prop out ''command''))"
    using run ok
    by (auto simp: intent_failed_def get_prop_def split: if_splits sum.splits)
next
  show "whitelisted B (map JStr names) command
     = (case command of Some (JStr s) \<Rightarrow> if s \<in> set names then JStr s else JNull | _ \<Rightarrow> JNull)"
  proof (cases command)
    case None
    then show ?thesis by (simp add: whitelisted_def)
  next
    case (Some v)
    then show ?thesis by (cases v) (auto simp: whitelisted_def)
  qed
next
  assume a: "passes_validation req_body \<and> prompt_v1 B req_body = Inr msg1 \<and>
    chat systemMsg msg1 = ChatContent (Some content1) \<and> JSON_parse B content1 = Some (JObj kvs) \<and>
    map_of kvs ''command'' = Some (JStr s1)"
  then have run: "intent_v1 B chat req_body = finish_v1 (JObj kvs)"
    using intent_v1_content [of req_body B msg1 chat content1] by simp
  from finish_v1_object [of kvs] a run
  show "\<exists>fields. intent_v1 B chat req_body = Response 200 (JObj fields) \<and>
                map_of fields ''command'' = Some (JStr s1)"
    by auto
qed

theorem intent_whitelist_witness:
  \<open>intent_v2 example_engine (answers ''{"command":"lights_dim"}'') example_request
     = Response 200
         (JObj [(''command'', JNull), (''confidence'', JNum (Fin (1 / 2))), (''source'', JStr ''openai'')]) \<and>
   get_prop (body_of (intent_v2 example_engine (answers ''{"command":"lights_dim"}'') example_request)) ''command''
     = Some JNull \<and>
   intent_v2 example_engine (answers ''{"command":"lights_on","confidence":0.9}'') example_request
     = Response 200
         (JObj [(''command'', JStr ''lights_on''), (''confidence'', JNum (Fin (9 / 10))),
                (''source'', JStr ''openai'')]) \<and>
   get_prop (body_of (intent_v2 example_engine (answers ''{"command":"lights_on","confidence":0.9}'') example_request)) ''command''
     = Some (JStr ''lights_on'') \<and>
   (\<exists>fields. intent_v1 example_engine (answers ''{"command":"lights_dim"}'') example_request
               = Response 200 (JObj fields) \<and>
             map_of fields ''command'' = Some (JStr ''lights_dim''))\<close>
proof -
  let ?msg1 = "userMsg_v1 ''turn on the light'' ''lights_on, lights_off''"
  let ?dim = \<open>''{"command":"lights_dim"}''\<close>
  let ?on = \<open>''{"command":"lights_on","confidence":0.9}''\<close>
  let ?msg = "userMsg_v2 ''turn on the light'' ''lights_on, lights_off''"
  have w: "map_String example_engine (elems_of (request_commands example_request))
           = Inr [''lights_on'', ''lights_off'']"
    by (simp add: example_commands)
  have r1: "intent_v2 example_engine (answers ?dim) example_request
     = Response 200
         (JObj [(''command'', JNull), (''confidence'', JNum (Fin (1 / 2))), (''source'', JStr ''openai'')])"
    by (simp add: example_intent_v2
                  example_parse whitelisted_def example_commands get_prop_def)
  have r2: "intent_v2 example_engine (answers ?on) example_request
     = Response 200
         (JObj [(''command'', JStr ''lights_on''), (''confidence'', JNum (Fin (9 / 10))),
                (''source'', JStr ''openai'')])"
    by (simp add: example_intent_v2
                  example_parse whitelisted_def example_commands get_prop_def)
  have c1: "get_prop (body_of (intent_v2 example_engine (answers ?dim) example_request)) ''command''
            = Some (whitelisted example_engine (elems_of (request_commands example_request))
                      (get_prop (JObj [(''command'', JStr ''lights_dim'')]) ''command''))"
    using intent_whitelist [of example_request example_engine ?msg "answers ?dim" ?dim
                               "JObj [(''command'', JStr ''lights_dim'')]"
                               "body_of (intent_v2 example_engine (answers ?dim) example_request)"]
          example_passes example_prompt_v2 example_answers [of ?dim ?msg] example_parse(1) r1
    by simp
  have c2: "get_prop (body_of (intent_v2 example_engine (answers ?on) example_request)) ''command''
            = Some (whitelisted example_engine (elems_of (request_commands example_request))
                      (get_prop (JObj [(''command'', JStr ''lights_on''), (''confidence'', JNum (Fin (9 / 10)))]) ''command''))"
    using intent_whitelist [of example_request example_engine ?msg "answers ?on" ?on
                               "JObj [(''command'', JStr ''lights_on''), (''confidence'', JNum (Fin (9 / 10)))]"
                               "body_of (intent_v2 example_engine (answers ?on) example_request)"]
          example_passes example_prompt_v2 example_answers [of ?on ?msg] example_parse(3) r2
    by simp
  have d1: "get_prop (body_of (intent_v2 example_engine (answers ?dim) example_request)) ''command'' = Some JNull"
    unfolding c1 by (simp add: whitelisted_def example_commands get_prop_def)
  have d2: "get_prop (body_of (intent_v2 example_engine (answers ?on) example_request)) ''command''
            = Some (JStr ''lights_on'')"
    unfolding c2 by (simp add: whitelisted_def example_commands get_prop_def)
  have e: "\<exists>fields. intent_v1 example_engine (answers ?dim) example_request = Response 200 (JObj fields) \<and>
             map_of fields ''command'' = Some (JStr ''lights_dim'')"
    using intent_whitelist [of example_request example_engine ?msg "answers ?dim" ?dim
                               "JObj [(''command'', JStr ''lights_dim'')]"
                               "body_of (intent_v2 example_engine (answers ?dim) example_request)"
                               "[]" None ?msg1 ?dim "[(''command'', JStr ''lights_dim'')]" "''lights_dim''"]
          example_passes example_prompt_v1 example_answers [of ?dim ?msg1] example_parse(1)
    by simp
  show ?thesis using r1 r2 d1 d2 e by blast
qed

text \<open>
  C4 as stated fails on the first version of the file: a command outside the list reaches
  the response.
\<close>

theorem intent_v1_whitelist_counterexample:
  \<open>passes_validation example_request \<and>
   elems_of (request_commands example_request) = [JStr ''lights_on'', JStr ''lights_off''] \<and>
   intent_v1 example_engine (answers ''{"command":"lights_dim"}'') example_request
     = Response 200
         (JObj [(''command'', JStr ''lights_dim''), (''source'', JStr ''openai''),
                (''confidence'', JNum (Fin (1 / 2)))])\<close>
  by (simp add: example_passes example_commands
                example_intent_v1
                example_parse finish_v1_def)


text \<open>
  C5, as the code has it, for finite numbers (the numbers a JSON response can carry). In
  the second version, in a 200 response, the confidence is 0.5 when the model sent none
  or one that converts to NaN, and the converted number when that is finite and not zero.
  In the first version nothing is converted: the confidence is the model's value when
  that is a finite number (zero included) and 0.5 when its type is not number.
\<close>

theorem intent_confidence:
  "(passes_validation req_body \<and> prompt_v2 B req_body = Inr msg \<and>
    chat systemMsg msg = ChatContent (Some content) \<and> JSON_parse B content = Some out \<and>
    intent_v2 B chat req_body = Response 200 body \<longrightarrow>
      (get_prop out ''confidence'' = None \<longrightarrow>
         get_prop body ''confidence'' = Some (JNum (Fin (1 / 2)))) \<and>
      (\<forall>v. get_prop out ''confidence'' = Some v \<and> ToNumber B v = Inr NaN \<longrightarrow>
         get_prop body ''confidence'' = Some (JNum (Fin (1 / 2)))) \<and>
      (\<forall>v q. get_prop out ''confidence'' = Some v \<and> ToNumber B v = Inr (Fin q) \<and> q \<noteq> 0 \<longrightarrow>
         get_prop body ''confidence'' = Some (JNum (Fin q)))) \<and>
   (passes_validation req_body \<and> prompt_v1 B req_body = Inr msg1 \<and>
    chat systemMsg msg1 = ChatContent (Some content1) \<and> JSON_parse B content1 = Some (JObj kvs) \<longrightarrow>
      (\<exists>fields. intent_v1 B chat req_body = Response 200 (JObj fields) \<and>
                (\<forall>q. map_of kvs ''confidence'' = Some (JNum (Fin q)) \<longrightarrow>
                     map_of fields ''confidence'' = Some (JNum (Fin q))) \<and>
                (typeof (map_of kvs ''confidence'') \<noteq> ''number'' \<longrightarrow>
                     map_of fields ''confidence'' = Some (JNum (Fin (1 / 2))))))"
proof (intro conjI impI allI)
  assume a: "passes_validation req_body \<and> prompt_v2 B req_body = Inr msg \<and>
    chat systemMsg msg = ChatContent (Some content) \<and> JSON_parse B content = Some out \<and>
    intent_v2 B chat req_body = Response 200 body"
  then have run: "Response 200 body =
      (if out = JNull then intent_failed
       else
         (case ToNumber B (case get_prop out ''confidence'' of Some v \<Rightarrow> v | None \<Rightarrow> JNum (Fin (1 / 2))) of
            Inl err \<Rightarrow> intent_failed
          | Inr n \<Rightarrow>
              Response 200
                (JObj [(''command'', whitelisted B (elems_of (request_commands req_body)) (get_prop out ''command'')),
                       (''confidence'', JNum (if num_truthy n then n else Fin (1 / 2))),
                       (''source'', JStr ''openai'')])))"
    using intent_v2_content [of req_body B msg chat content] by (simp add: Let_def)
  {
    assume "get_prop out ''confidence'' = None"
    with run show "get_prop body ''confidence'' = Some (JNum (Fin (1 / 2)))"
      by (auto simp: intent_failed_def get_prop_def split: if_splits)
  }
  {
    fix v
    assume "get_prop out ''confidence'' = Some v \<and> ToNumber B v = Inr NaN"
    with run show "get_prop body ''confidence'' = Some (JNum (Fin (1 / 2)))"
      by (auto simp: intent_failed_def get_prop_def split: if_splits)
  }
  {
    fix v q
    assume "get_prop out ''confidence'' = Some v \<and> ToNumber B v = Inr (Fin q) \<and> q \<noteq> 0"
    with run show "get_prop body ''confidence'' = Some (JNum (Fin q))"
      by (auto simp: intent_failed_def get_prop_def split: if_splits)
  }
next
  assume a: "passes_validation req_body \<and> prompt_v1 B req_body = Inr msg1 \<and>
    chat systemMsg msg1 = ChatContent (Some content1) \<and> JSON_parse B content1 = Some (JObj kvs)"
  then have run: "intent_v1 B chat req_body = finish_v1 (JObj kvs)"
    using intent_v1_content [of req_body B msg1 chat content1] by simp
  from finish_v1_object [of kvs] obtain fields where
    f: "finish_v1 (JObj kvs) = Response 200 (JObj fields)" and
    c: "map_of fields ''confidence''
          = Some (case map_of kvs ''confidence'' of
                    Some (JNum n) \<Rightarrow> JNum n
                  | _ \<Rightarrow> JNum (Fin (1 / 2)))"
    by blast
  have other: "typeof (map_of kvs ''confidence'') \<noteq> ''number'' \<Longrightarrow>
      map_of fields ''confidence'' = Some (JNum (Fin (1 / 2)))"
    unfolding c by (cases "map_of kvs ''confidence''" rule: typeof.cases) simp_all
  have finite: "map_of kvs ''confidence'' = Some (JNum (Fin q)) \<Longrightarrow>
      map_of fields ''confidence'' = Some (JNum (Fin q))" for q
    unfolding c by simp
  show "\<exists>fields. intent_v1 B chat req_body = Response 200 (JObj fields) \<and>
                (\<forall>q. map_of kvs ''confidence'' = Some (JNum (Fin q)) \<longrightarrow>
                     map_of fields ''confidence'' = Some (JNum (Fin q))) \<and>
                (typeof (map_of kvs ''confidence'') \<noteq> ''number'' \<longrightarrow>
                     map_of fields ''confidence'' = Some (JNum (Fin (1 / 2))))"
    using run f other finite by auto
qed

theorem intent_confidence_witness:
  \<open>intent_v2 example_engine (answers ''{"command":"lights_on"}'') example_request
     = Response 200
         (JObj [(''command'', JStr ''lights_on''), (''confidence'', JNum (Fin (1 / 2))),
                (''source'', JStr ''openai'')]) \<and>
   get_prop (body_of (intent_v2 example_engine (answers ''{"command":"lights_on"}'') example_request)) ''confidence''
     = Some (JNum (Fin (1 / 2))) \<and>
   get_prop (body_of (intent_v2 example_engine (answers ''{"command":"lights_on","confidence":0.9}'') example_request)) ''confidence''
     = Some (JNum (Fin (9 / 10))) \<and>
   (\<exists>fields. intent_v1 example_engine (answers ''{"command":"lights_on","confidence":0}'') example_request
               = Response 200 (JObj fields) \<and>
             map_of fields ''confidence'' = Some (JNum (Fin 0)))\<close>
proof -
  let ?none = \<open>''{"command":"lights_on"}''\<close>
  let ?on = \<open>''{"command":"lights_on","confidence":0.9}''\<close>
  let ?zero = \<open>''{"command":"lights_on","confidence":0}''\<close>
  let ?msg = "userMsg_v2 ''turn on the light'' ''lights_on, lights_off''"
  let ?msg1 = "userMsg_v1 ''turn on the light'' ''lights_on, lights_off''"
  let ?out_none = "JObj [(''command'', JStr ''lights_on'')]"
  let ?out_on = "JObj [(''command'', JStr ''lights_on''), (''confidence'', JNum (Fin (9 / 10)))]"
  have r1: "intent_v2 example_engine (answers ?none) example_request
     = Response 200
         (JObj [(''command'', JStr ''lights_on''), (''confidence'', JNum (Fin (1 / 2))),
                (''source'', JStr ''openai'')])"
    by (simp add: example_intent_v2 example_parse whitelisted_def example_commands get_prop_def)
  have r2: "intent_v2 example_engine (answers ?on) example_request
     = Response 200
         (JObj [(''command'', JStr ''lights_on''), (''confidence'', JNum (Fin (9 / 10))),
                (''source'', JStr ''openai'')])"
    by (simp add: example_intent_v2 example_parse whitelisted_def example_commands get_prop_def)
  have g1: "get_prop ?out_none ''confidence'' = None"
    by (simp add: get_prop_def)
  have g2: "get_prop ?out_on ''confidence'' = Some (JNum (Fin (9 / 10))) \<and>
            ToNumber example_engine (JNum (Fin (9 / 10))) = Inr (Fin (9 / 10)) \<and> (9 / 10 :: rat) \<noteq> 0"
    by (simp add: get_prop_def)
  have c1: "get_prop (body_of (intent_v2 example_engine (answers ?none) example_request)) ''confidence''
            = Some (JNum (Fin (1 / 2)))"
    using intent_confidence [of example_request example_engine ?msg "answers ?none" ?none ?out_none
                               "body_of (intent_v2 example_engine (answers ?none) example_request)"]
          example_passes example_prompt_v2 example_answers [of ?none ?msg] example_parse(2) r1 g1
    by simp
  have c2: "get_prop (body_of (intent_v2 example_engine (answers ?on) example_request)) ''confidence''
            = Some (JNum (Fin (9 / 10)))"
    using intent_confidence [of example_request example_engine ?msg "answers ?on" ?on ?out_on
                               "body_of (intent_v2 example_engine (answers ?on) example_request)"]
          example_passes example_prompt_v2 example_answers [of ?on ?msg] example_parse(3) r2 g2
    by simp
  have c3: "\<exists>fields. intent_v1 example_engine (answers ?zero) example_request = Response 200 (JObj fields) \<and>
             map_of fields ''confidence'' = Some (JNum (Fin 0))"
    using intent_confidence [of example_request example_engine ?msg "answers ?zero" ?zero ?out_none
                               "body_of (intent_v2 example_engine (answers ?zero) example_request)"
                               ?msg1 ?zero "[(''command'', JStr ''lights_on''), (''confidence'', JNum (Fin 0))]"]
          example_passes example_prompt_v1 example_answers [of ?zero ?msg1] example_parse(5)
    by simp
  show ?thesis using r1 c1 c2 c3 by blast
qed

text \<open>
  C5 as stated fails in both versions. The first does not convert: a confidence sent as
  the string \<^verbatim>\<open>"0.9"\<close>, which converts to 0.9, is replaced by 0.5. The second replaces a
  confidence of 0 by 0.5.
\<close>

theorem intent_confidence_counterexample:
  \<open>ToNumber example_engine (JStr ''0.9'') = Inr (Fin (9 / 10)) \<and>
   intent_v1 example_engine (answers ''{"command":"lights_on","confidence":"0.9"}'') example_request
     = Response 200
         (JObj [(''command'', JStr ''lights_on''), (''confidence'', JNum (Fin (1 / 2))),
                (''source'', JStr ''openai'')]) \<and>
   intent_v2 example_engine (answers ''{"command":"lights_on","confidence":0}'') example_request
     = Response 200
         (JObj [(''command'', JStr ''lights_on''), (''confidence'', JNum (Fin (1 / 2))),
                (''source'', JStr ''openai'')])\<close>
proof -
  have a: "ToNumber example_engine (JStr ''0.9'') = Inr (Fin (9 / 10))"
    by (simp add: example_engine_def)
  have b: \<open>intent_v1 example_engine (answers ''{"command":"lights_on","confidence":"0.9"}'') example_request
     = Response 200
         (JObj [(''command'', JStr ''lights_on''), (''confidence'', JNum (Fin (1 / 2))),
                (''source'', JStr ''openai'')])\<close>
    by (simp add: example_intent_v1 example_parse finish_v1_def)
  have c: \<open>intent_v2 example_engine (answers ''{"command":"lights_on","confidence":0}'') example_request
     = Response 200
         (JObj [(''command'', JStr ''lights_on''), (''confidence'', JNum (Fin (1 / 2))),
                (''source'', JStr ''openai'')])\<close>
    by (simp add: example_intent_v2 example_parse whitelisted_def example_commands get_prop_def)
  show ?thesis using a b c by blast
qed

text \<open>
  C6, as the code has it. When the content the model returned does not parse, the second
  version goes on with an empty object and answers 200 with a null command and the
  confidence 0.5; the first version answers 500 \<^verbatim>\<open>{error: "intent_failed"}\<close>.
\<close>

theorem intent_unparseable:
  "(passes_validation req_body \<and> prompt_v2 B req_body = Inr msg \<and>
    chat systemMsg msg = ChatContent (Some content) \<and> JSON_parse B content = None \<longrightarrow>
      intent_v2 B chat req_body
        = Response 200
            (JObj [(''command'', JNull), (''confidence'', JNum (Fin (1 / 2))),
                   (''source'', JStr ''openai'')])) \<and>
   (passes_validation req_body \<and> prompt_v1 B req_body = Inr msg1 \<and>
    chat systemMsg msg1 = ChatContent (Some content1) \<and> JSON_parse B content1 = None \<longrightarrow>
      intent_v1 B chat req_body = Response 500 (JObj [(''error'', JStr ''intent_failed'')]))"
proof (intro conjI impI)
  assume "passes_validation req_body \<and> prompt_v2 B req_body = Inr msg \<and>
    chat systemMsg msg = ChatContent (Some content) \<and> JSON_parse B content = None"
  then show "intent_v2 B chat req_body
        = Response 200
            (JObj [(''command'', JNull), (''confidence'', JNum (Fin (1 / 2))),
                   (''source'', JStr ''openai'')])"
    using intent_v2_content [of req_body B msg chat content]
    by (simp add: get_prop_def whitelisted_def)
next
  assume "passes_validation req_body \<and> prompt_v1 B req_body = Inr msg1 \<and>
    chat systemMsg msg1 = ChatContent (Some content1) \<and> JSON_parse B content1 = None"
  then show "intent_v1 B chat req_body = Response 500 (JObj [(''error'', JStr ''intent_failed'')])"
    using intent_v1_content [of req_body B msg1 chat content1]
    by (simp add: intent_failed_def error_body_def)
qed

theorem intent_unparseable_witness:
  "intent_v2 example_engine (answers ''not json'') example_request
     = Response 200
         (JObj [(''command'', JNull), (''confidence'', JNum (Fin (1 / 2))), (''source'', JStr ''openai'')]) \<and>
   status_of (intent_v1 example_engine (answers ''not json'') example_request) = 500"
  using intent_unparseable [of example_request example_engine
          "userMsg_v2 ''turn on the light'' ''lights_on, lights_off''" "answers ''not json''" "''not json''"
          "userMsg_v1 ''turn on the light'' ''lights_on, lights_off''" "''not json''"]
        example_passes example_prompt_v2 example_prompt_v1
        example_answers [of "''not json''" "userMsg_v2 ''turn on the light'' ''lights_on, lights_off''"]
        example_answers [of "''not json''" "userMsg_v1 ''turn on the light'' ''lights_on, lights_off''"]
        example_parse(6)
  by simp

text \<open>C6 as stated fails on the first version of the file.\<close>

theorem intent_v1_unparseable_counterexample:
  "passes_validation example_request \<and>
   JSON_parse example_engine ''not json'' = None \<and>
   intent_v1 example_engine (answers ''not json'') example_request
     = Response 500 (JObj [(''error'', JStr ''intent_failed'')])"
  by (simp add: example_passes example_intent_v1 example_parse intent_failed_def error_body_def)

section \<open>The first version's bootstrap\<close>

lemma health_v1_running:
  assumes "main_v1 env_key = Running key"
  shows "get_prop (body_of (health_v1 env_key env_port)) ''hasKey'' = Some (JBool True)"
  using assms by (simp add: main_v1_def health_v1_def get_prop_def split: if_splits)

end
